theory Spec2Isabelle
  imports Complex_Main "HOL-Library.Sublist" "HOL-Library.AList"
begin

section \<open>JavaScript values and built-ins used by the evaluation pipeline\<close>

text \<open>
  Values that come out of \<^verbatim>\<open>JSON.parse\<close>. Numbers are exact rationals (the rounding
  of IEEE doubles is not modelled), strings are byte strings, and an object is the list of
  its members in source order; a later duplicate key overrides an earlier one on lookup,
  as in JavaScript.
\<close>

datatype json =
    JNull
  | JBool bool
  | JNum rat
  | JStr string
  | JArr "json list"
  | JObj "(string \<times> json) list"

text \<open>Thrown values. Both kinds of error carry a message.\<close>

datatype error = Error string | TypeError string

fun message :: "error \<Rightarrow> string" where
  "message (Error m) = m"
| "message (TypeError m) = m"

subsection \<open>Truthiness, property reads, the \<^verbatim>\<open>in\<close> operator\<close>

text \<open>\<^verbatim>\<open>undefined\<close> is \<open>None\<close>.\<close>

fun truthy :: "json option \<Rightarrow> bool" where
  "truthy None = False"
| "truthy (Some JNull) = False"
| "truthy (Some (JBool b)) = b"
| "truthy (Some (JNum n)) = (n \<noteq> 0)"
| "truthy (Some (JStr s)) = (s \<noteq> [])"
| "truthy (Some (JArr _)) = True"
| "truthy (Some (JObj _)) = True"

text \<open>\<^verbatim>\<open>a || b\<close> where \<open>b\<close> is a string literal.\<close>

definition or_default :: "json option \<Rightarrow> string \<Rightarrow> json" where
  "or_default v d = (if truthy v then the v else JStr d)"

text \<open>
  \<^verbatim>\<open>obj.key\<close> on a value produced by \<^verbatim>\<open>JSON.parse\<close>, for a key that is no built-in
  property (the code reads \<^verbatim>\<open>confidence\<close>, \<^verbatim>\<open>reasoning\<close>, \<^verbatim>\<open>verdict\<close>).
\<close>

fun get_prop :: "json \<Rightarrow> string \<Rightarrow> json option" where
  "get_prop (JObj kvs) k = map_of (rev kvs) k"
| "get_prop _ k = None"

text \<open>
  \<^verbatim>\<open>key in value\<close>: a \<^verbatim>\<open>TypeError\<close> when the right operand is a primitive.
\<close>

fun has_prop :: "string \<Rightarrow> json \<Rightarrow> error + bool" where
  "has_prop k (JObj kvs) = Inr (k \<in> fst ` set kvs)"
| "has_prop k (JArr xs) = Inr False"
| "has_prop k _ =
     Inl (TypeError (''Cannot use 'in' operator to search for '' @ k))"

subsection \<open>\<^verbatim>\<open>JSON.parse\<close>\<close>

definition is_ws :: "char \<Rightarrow> bool" where
  "is_ws c = (c = CHR '' '' \<or> c = CHR 0x09 \<or> c = CHR 0x0A \<or> c = CHR 0x0D)"

definition skip_ws :: "string \<Rightarrow> string" where
  "skip_ws = dropWhile is_ws"

definition is_digit :: "char \<Rightarrow> bool" where
  "is_digit c = ((48::nat) \<le> of_char c \<and> of_char c \<le> (57::nat))"

definition digits_val :: "string \<Rightarrow> nat" where
  "digits_val ds = foldl (\<lambda>a c. 10 * a + (of_char c - 48)) 0 ds"

definition hex_val :: "char \<Rightarrow> nat option" where
  "hex_val c =
     (let n = (of_char c :: nat) in
      if 48 \<le> n \<and> n \<le> 57 then Some (n - 48)
      else if 65 \<le> n \<and> n \<le> 70 then Some (n - 55)
      else if 97 \<le> n \<and> n \<le> 102 then Some (n - 87)
      else None)"

definition hex4 :: "char \<Rightarrow> char \<Rightarrow> char \<Rightarrow> char \<Rightarrow> nat option" where
  "hex4 a b c d =
     (case (hex_val a, hex_val b, hex_val c, hex_val d) of
        (Some w, Some x, Some y, Some z) \<Rightarrow> Some (((w * 16 + x) * 16 + y) * 16 + z)
      | _ \<Rightarrow> None)"

text \<open>A code unit written \<^verbatim>\<open>\uXXXX\<close>, as the bytes of its UTF-8 encoding.\<close>

definition utf8 :: "nat \<Rightarrow> string" where
  "utf8 n =
     (if n < 0x80 then [char_of n]
      else if n < 0x800 then [char_of (0xC0 + n div 64), char_of (0x80 + n mod 64)]
      else [char_of (0xE0 + n div 4096), char_of (0x80 + (n div 64) mod 64),
            char_of (0x80 + n mod 64)])"

definition unescape :: "char \<Rightarrow> char option" where
  "unescape e =
     (if e = CHR 0x22 then Some (CHR 0x22)
      else if e = CHR 0x5C then Some (CHR 0x5C)
      else if e = CHR ''/'' then Some (CHR ''/'')
      else if e = CHR ''b'' then Some (CHR 0x08)
      else if e = CHR ''f'' then Some (CHR 0x0C)
      else if e = CHR ''n'' then Some (CHR 0x0A)
      else if e = CHR ''r'' then Some (CHR 0x0D)
      else if e = CHR ''t'' then Some (CHR 0x09)
      else None)"

text \<open>The rest of a string literal, after its opening quote: the text and what follows.\<close>

fun parse_chars :: "string \<Rightarrow> (string \<times> string) option" where
  "parse_chars [] = None"
| "parse_chars (c # cs) =
     (if c = CHR 0x22 then Some ([], cs)
      else if c = CHR 0x5C then
        (case cs of
           [] \<Rightarrow> None
         | e # cs' \<Rightarrow>
             if e = CHR ''u'' then
               (case cs' of
                  h1 # h2 # h3 # h4 # r \<Rightarrow>
                    (case hex4 h1 h2 h3 h4 of
                       None \<Rightarrow> None
                     | Some n \<Rightarrow> map_option (\<lambda>(s, r'). (utf8 n @ s, r')) (parse_chars r))
                | _ \<Rightarrow> None)
             else
               (case unescape e of
                  None \<Rightarrow> None
                | Some ch \<Rightarrow> map_option (\<lambda>(s, r'). (ch # s, r')) (parse_chars cs')))
      else if (of_char c :: nat) < 0x20 then None
      else map_option (\<lambda>(s, r'). (c # s, r')) (parse_chars cs))"

text \<open>
  A number literal: \<^verbatim>\<open>-?(0|[1-9][0-9]*)(\.[0-9]+)?([eE][+-]?[0-9]+)?\<close>.
\<close>

definition parse_int_part :: "string \<Rightarrow> (string \<times> string) option" where
  "parse_int_part s =
     (case s of
        [] \<Rightarrow> None
      | c # r \<Rightarrow>
          if c = CHR ''0'' then Some ([c], r)
          else if is_digit c then Some (takeWhile is_digit s, dropWhile is_digit s)
          else None)"

definition parse_frac_part :: "string \<Rightarrow> (string \<times> string) option" where
  "parse_frac_part s =
     (case s of
        c # r \<Rightarrow>
          if c = CHR ''.'' then
            (if takeWhile is_digit r = [] then None
             else Some (takeWhile is_digit r, dropWhile is_digit r))
          else Some ([], s)
      | [] \<Rightarrow> Some ([], s))"

definition parse_exp_part :: "string \<Rightarrow> (int \<times> string) option" where
  "parse_exp_part s =
     (case s of
        c # r \<Rightarrow>
          if c = CHR ''e'' \<or> c = CHR ''E'' then
            (let (neg, r') =
               (case r of
                  d # r'' \<Rightarrow>
                    if d = CHR ''-'' then (True, r'')
                    else if d = CHR ''+'' then (False, r'')
                    else (False, r)
                | [] \<Rightarrow> (False, r))
             in if takeWhile is_digit r' = [] then None
                else Some ((if neg then - int (digits_val (takeWhile is_digit r'))
                            else int (digits_val (takeWhile is_digit r'))),
                           dropWhile is_digit r'))
          else Some (0, s)
      | [] \<Rightarrow> Some (0, s))"

definition scale10 :: "rat \<Rightarrow> int \<Rightarrow> rat" where
  "scale10 x e = (if 0 \<le> e then x * 10 ^ nat e else x / 10 ^ nat (- e))"

definition parse_number :: "string \<Rightarrow> (rat \<times> string) option" where
  "parse_number s =
     (let (neg, s1) = (case s of c # r \<Rightarrow> if c = CHR ''-'' then (True, r) else (False, s)
                       | [] \<Rightarrow> (False, s))
      in case parse_int_part s1 of
           None \<Rightarrow> None
         | Some (ip, s2) \<Rightarrow>
             (case parse_frac_part s2 of
                None \<Rightarrow> None
              | Some (fp, s3) \<Rightarrow>
                  (case parse_exp_part s3 of
                     None \<Rightarrow> None
                   | Some (e, s4) \<Rightarrow>
                       (let m = of_nat (digits_val ip)
                                + of_nat (digits_val fp) / 10 ^ length fp;
                            v = scale10 m e
                        in Some (if neg then - v else v, s4)))))"

definition strip_prefix :: "string \<Rightarrow> string \<Rightarrow> string option" where
  "strip_prefix p s = (if take (length p) s = p then Some (drop (length p) s) else None)"

text \<open>
  Recursive descent over the remaining input. The first argument bounds the number of
  nested calls; \<open>JSON_parse\<close> starts it above what any input of that length needs.
  \<open>None\<close> is the \<^verbatim>\<open>SyntaxError\<close> of \<^verbatim>\<open>JSON.parse\<close>.
\<close>

fun parse_value :: "nat \<Rightarrow> string \<Rightarrow> (json \<times> string) option"
  and parse_elems :: "nat \<Rightarrow> string \<Rightarrow> (json list \<times> string) option"
  and parse_members :: "nat \<Rightarrow> string \<Rightarrow> ((string \<times> json) list \<times> string) option"
where
  "parse_value 0 s = None"
| "parse_value (Suc n) s =
     (case skip_ws s of
        [] \<Rightarrow> None
      | c # r \<Rightarrow>
          if c = CHR ''{'' then
            (case skip_ws r of
               [] \<Rightarrow> None
             | d # r' \<Rightarrow>
                 if d = CHR ''}'' then Some (JObj [], r')
                 else map_option (\<lambda>(kvs, t). (JObj kvs, t)) (parse_members n r))
          else if c = CHR ''['' then
            (case skip_ws r of
               [] \<Rightarrow> None
             | d # r' \<Rightarrow>
                 if d = CHR '']'' then Some (JArr [], r')
                 else map_option (\<lambda>(vs, t). (JArr vs, t)) (parse_elems n r))
          else if c = CHR 0x22 then
            map_option (\<lambda>(str, t). (JStr str, t)) (parse_chars r)
          else if c = CHR ''t'' then
            map_option (\<lambda>t. (JBool True, t)) (strip_prefix ''true'' (c # r))
          else if c = CHR ''f'' then
            map_option (\<lambda>t. (JBool False, t)) (strip_prefix ''false'' (c # r))
          else if c = CHR ''n'' then
            map_option (\<lambda>t. (JNull, t)) (strip_prefix ''null'' (c # r))
          else map_option (\<lambda>(x, t). (JNum x, t)) (parse_number (c # r)))"
| "parse_elems 0 s = None"
| "parse_elems (Suc n) s =
     (case parse_value n s of
        None \<Rightarrow> None
      | Some (v, r) \<Rightarrow>
          (case skip_ws r of
             [] \<Rightarrow> None
           | c # r' \<Rightarrow>
               if c = CHR '','' then
                 map_option (\<lambda>(vs, t). (v # vs, t)) (parse_elems n r')
               else if c = CHR '']'' then Some ([v], r')
               else None))"
| "parse_members 0 s = None"
| "parse_members (Suc n) s =
     (case skip_ws s of
        [] \<Rightarrow> None
      | q # r \<Rightarrow>
          if q \<noteq> CHR 0x22 then None
          else
            (case parse_chars r of
               None \<Rightarrow> None
             | Some (k, r1) \<Rightarrow>
                 (case skip_ws r1 of
                    [] \<Rightarrow> None
                  | c # r2 \<Rightarrow>
                      if c \<noteq> CHR '':'' then None
                      else
                        (case parse_value n r2 of
                           None \<Rightarrow> None
                         | Some (v, r3) \<Rightarrow>
                             (case skip_ws r3 of
                                [] \<Rightarrow> None
                              | d # r4 \<Rightarrow>
                                  if d = CHR '','' then
                                    map_option (\<lambda>(kvs, t). ((k, v) # kvs, t))
                                      (parse_members n r4)
                                  else if d = CHR ''}'' then Some ([(k, v)], r4)
                                  else None)))))"

definition JSON_parse :: "string \<Rightarrow> json option" where
  "JSON_parse s =
     (case parse_value (2 * length s + 2) s of
        None \<Rightarrow> None
      | Some (v, r) \<Rightarrow> if skip_ws r = [] then Some v else None)"

subsection \<open>The regular expression \<^verbatim>\<open>/(\{[\s\S]*\})/\<close>\<close>

text \<open>
  \<^verbatim>\<open>content.match(/(\{[\s\S]*\})/)\<close>: the leftmost match starts at the first
  \<^verbatim>\<open>{\<close>, and the greedy star runs to the last \<^verbatim>\<open>}\<close> of the text. There is no
  match when no \<^verbatim>\<open>}\<close> follows the first \<^verbatim>\<open>{\<close>.
\<close>

definition upto_last :: "char \<Rightarrow> string \<Rightarrow> string" where
  "upto_last c s = rev (dropWhile (\<lambda>x. x \<noteq> c) (rev s))"

definition jsonMatch :: "string \<Rightarrow> string option" where
  "jsonMatch content =
     (case dropWhile (\<lambda>x. x \<noteq> CHR ''{'') content of
        [] \<Rightarrow> None
      | b # rest \<Rightarrow>
          if CHR ''}'' \<in> set rest then Some (b # upto_last (CHR ''}'') rest) else None)"


subsection \<open>Strings\<close>

text \<open>\<^verbatim>\<open>Array.prototype.join\<close>.\<close>

fun join :: "string \<Rightarrow> string list \<Rightarrow> string" where
  "join sep [] = []"
| "join sep [x] = x"
| "join sep (x # y # ys) = x @ sep @ join sep (y # ys)"

text \<open>A natural number in a template literal.\<close>

fun show_nat :: "nat \<Rightarrow> string" where
  "show_nat n =
     (if n < 10 then [''0123456789'' ! n]
      else show_nat (n div 10) @ [''0123456789'' ! (n mod 10)])"

text \<open>Truthiness of an optional string and \<^verbatim>\<open>x || d\<close> on optional numbers.\<close>

definition str_truthy :: "string option \<Rightarrow> bool" where
  "str_truthy s = (case s of None \<Rightarrow> False | Some v \<Rightarrow> v \<noteq> [])"

definition num_or :: "'a::zero option \<Rightarrow> 'a \<Rightarrow> 'a" where
  "num_or x d = (case x of None \<Rightarrow> d | Some v \<Rightarrow> if v = 0 then d else v)"

text \<open>
  Object spread \<^verbatim>\<open>{...a, ...b}\<close> on member lists: a key of \<open>b\<close> that \<open>a\<close> has keeps its
  place and takes the new value, a new key is appended.
\<close>

definition spread :: "(string \<times> json) list \<Rightarrow> (string \<times> json) list \<Rightarrow> (string \<times> json) list" where
  "spread a b = fold (\<lambda>(k, v). AList.update k v) b a"

section \<open>Data model\<close>

record EvaluateOptions =
  confidenceThreshold :: "rat option"
  includeRawResponse :: "bool option"
  maxRetries :: "int option"
  modelParameters :: "(string \<times> json) list option"

record LLMProviderConfig =
  apiKey :: "string option"
  apiKeyEnvVar :: "string option"
  defaultConfidenceThreshold :: "rat option"
  defaultMaxRetries :: "int option"
  temperature :: "rat option"
  model :: "string option"

text \<open>
  The response bodies, at the shape the providers read: the \<^verbatim>\<open>choices\<close> of an OpenAI
  reply (each with its \<^verbatim>\<open>message?.content\<close> and the choice itself, which the code may
  serialise) and the \<^verbatim>\<open>content\<close> blocks of an Anthropic reply.
\<close>

record openai_choice =
  message_content :: "string option"
  choice_value :: json

record anthropic_block =
  block_type :: string
  block_text :: "string option"

datatype response_body =
    OpenAIBody "openai_choice list"
  | AnthropicBody "anthropic_block list"

fun choices :: "response_body \<Rightarrow> openai_choice list" where
  "choices (OpenAIBody cs) = cs"
| "choices (AnthropicBody _) = []"

fun content_blocks :: "response_body \<Rightarrow> anthropic_block list" where
  "content_blocks (AnthropicBody bs) = bs"
| "content_blocks (OpenAIBody _) = []"

text \<open>What \<^verbatim>\<open>rawResponse\<close> holds: the reply text (OpenAI) or the whole body (Anthropic).\<close>

datatype raw = RawText string | RawData response_body

text \<open>
  \<^verbatim>\<open>LLMResponse\<close>. The providers fill the fields with whatever \<^verbatim>\<open>JSON.parse\<close>
  delivered (\<open>'n\<close> and \<open>'s\<close> are \<open>json\<close>); the \<^verbatim>\<open>vibeCheck\<close> command reads the
  record at its declared type (\<open>'n\<close> a number, \<open>'s\<close> a string).
\<close>

record ('n, 's) LLMResponse =
  confidence :: 'n
  reasoning :: 's
  verdict :: 's
  failReason :: "'s option"
  suggestions :: "'s list option"
  rawResponse :: "raw option"

type_synonym provider_response = "(json, json) LLMResponse"
type_synonym EvaluationResult = "(rat, string) LLMResponse"

record http_request =
  url :: string
  http_method :: string
  headers :: "(string \<times> string) list"
  body :: json

text \<open>
  A response: \<open>errorData_error\<close> is \<^verbatim>\<open>(await response.json().catch(() => ({}))).error\<close>,
  \<open>responseData\<close> is \<^verbatim>\<open>await response.json()\<close>, which rejects when the body is no JSON.
\<close>

record http_response =
  ok :: bool
  status :: nat
  errorData_error :: "json option"
  responseData :: "error + response_body"

text \<open>
  What one attempt finds outside the program: the file system (\<open>Inl\<close> is the text of the
  read error), the key that \<^verbatim>\<open>getApiKey\<close> finds in the environment, and the network.
\<close>

record world =
  readFile :: "string \<Rightarrow> string + string"
  envApiKey :: "string option"
  fetch :: "http_request \<Rightarrow> error + http_response"

section \<open>Providers\<close>

subsection \<open>Request construction\<close>

definition getSystemPrompt :: "string \<Rightarrow> string" where
  \<open>getSystemPrompt specification = join [CHR 0x0A]
     [''You are a visual UI testing assistant. Analyze the image and determine if it meets the specification.'',
      ''Use a scale from 0.0 to 1.0 where:'',
      ''- 1.0 means the UI perfectly matches the specification'',
      ''- 0.0 means the UI completely fails to match the specification'',
      [],
      ''Format your answer as JSON with these fields:'',
      ''- confidence: number from 0.0 to 1.0'',
      ''- reasoning: your step-by-step explanation'',
      ''- verdict: string, "yes" if the UI matches the specification, "no" if it doesn't'',
      [],
      ''SPECIFICATION:'',
      specification,
      [],
      ''Analyze carefully and be honest about the confidence score.'']\<close>

definition OPENAI_DEFAULT_MODEL :: string where
  "OPENAI_DEFAULT_MODEL = ''gpt-4o''"

definition ANTHROPIC_DEFAULT_MODEL :: string where
  "ANTHROPIC_DEFAULT_MODEL = ''claude-3-7-sonnet-latest''"

definition model_or :: "LLMProviderConfig \<Rightarrow> string \<Rightarrow> string" where
  "model_or config d = (if str_truthy (model config) then the (model config) else d)"

definition params_or_empty :: "EvaluateOptions \<Rightarrow> (string \<times> json) list" where
  "params_or_empty options = (case modelParameters options of None \<Rightarrow> [] | Some ps \<Rightarrow> ps)"

definition openai_body :: "LLMProviderConfig \<Rightarrow> string \<Rightarrow> string \<Rightarrow> EvaluateOptions \<Rightarrow> (string \<times> json) list" where
  "openai_body config systemPrompt base64Image options =
     spread
       [(''model'', JStr (model_or config OPENAI_DEFAULT_MODEL)),
        (''messages'', JArr
           [JObj [(''role'', JStr ''system''), (''content'', JStr systemPrompt)],
            JObj [(''role'', JStr ''user''),
                  (''content'', JArr
                     [JObj [(''type'', JStr ''text''),
                            (''text'', JStr ''Evaluate if this UI element matches the specification.'')],
                      JObj [(''type'', JStr ''image_url''),
                            (''image_url'',
                               JObj [(''url'', JStr (''data:image/png;base64,'' @ base64Image))])]])]]),
        (''max_tokens'', JNum 1500),
        (''temperature'', JNum (2 / 10))]
       (params_or_empty options)"

definition openai_request :: "LLMProviderConfig \<Rightarrow> string \<Rightarrow> string \<Rightarrow> string \<Rightarrow> EvaluateOptions \<Rightarrow> http_request" where
  "openai_request config key systemPrompt base64Image options =
     \<lparr>url = ''https://api.openai.com/v1/chat/completions'',
      http_method = ''POST'',
      headers = [(''Content-Type'', ''application/json''),
                 (''Authorization'', ''Bearer '' @ key)],
      body = JObj (openai_body config systemPrompt base64Image options)\<rparr>"

definition anthropic_body :: "LLMProviderConfig \<Rightarrow> string \<Rightarrow> string \<Rightarrow> EvaluateOptions \<Rightarrow> (string \<times> json) list" where
  "anthropic_body config systemPrompt base64Image options =
     spread
       [(''model'', JStr (model_or config ANTHROPIC_DEFAULT_MODEL)),
        (''system'', JStr systemPrompt),
        (''messages'', JArr
           [JObj [(''role'', JStr ''user''),
                  (''content'', JArr
                     [JObj [(''type'', JStr ''text''),
                            (''text'', JStr ''Evaluate if this UI element matches the specification.'')],
                      JObj [(''type'', JStr ''image''),
                            (''source'',
                               JObj [(''type'', JStr ''base64''),
                                     (''media_type'', JStr ''image/png''),
                                     (''data'', JStr base64Image)])]])]]),
        (''temperature'', JNum (2 / 10)),
        (''max_tokens'', JNum 1500)]
       (params_or_empty options)"

definition anthropic_request :: "LLMProviderConfig \<Rightarrow> string \<Rightarrow> string \<Rightarrow> string \<Rightarrow> EvaluateOptions \<Rightarrow> http_request" where
  "anthropic_request config key systemPrompt base64Image options =
     \<lparr>url = ''https://api.anthropic.com/v1/messages'',
      http_method = ''POST'',
      headers = [(''Content-Type'', ''application/json''),
                 (''x-api-key'', key),
                 (''anthropic-version'', ''2023-06-01'')],
      body = JObj (anthropic_body config systemPrompt base64Image options)\<rparr>"

subsection \<open>Reading the reply\<close>

text \<open>
  The text the reply is parsed from. OpenAI: the first choice's message content, or the
  serialised choice when that is empty; the empty string when there is no choice.
  Anthropic: the text of the first block of type \<^verbatim>\<open>text\<close>, else the empty string.
\<close>

definition openai_content :: "(json \<Rightarrow> string) \<Rightarrow> response_body \<Rightarrow> string" where
  "openai_content stringify data =
     (case choices data of
        [] \<Rightarrow> []
      | c # _ \<Rightarrow>
          if str_truthy (message_content c) then the (message_content c)
          else stringify (choice_value c))"

definition anthropic_content :: "response_body \<Rightarrow> string" where
  "anthropic_content data =
     (case find (\<lambda>block. block_type block = ''text'') (content_blocks data) of
        None \<Rightarrow> []
      | Some contentBlock \<Rightarrow>
          if str_truthy (block_text contentBlock) then the (block_text contentBlock) else [])"

text \<open>
  From the reply text to the result: the inner \<^verbatim>\<open>try\<close> (regular expression,
  \<^verbatim>\<open>JSON.parse\<close>, fallback object on any failure), the \<^verbatim>\<open>in\<close> test and the two
  result literals. \<open>stringify\<close> is \<^verbatim>\<open>JSON.stringify\<close>.
\<close>

definition parse_candidate :: "string \<Rightarrow> string" where
  "parse_candidate content = (case jsonMatch content of Some m \<Rightarrow> m | None \<Rightarrow> content)"

definition resultJson_of :: "string \<Rightarrow> json" where
  "resultJson_of content =
     (case JSON_parse (parse_candidate content) of
        Some j \<Rightarrow> j
      | None \<Rightarrow>
          JObj [(''confidence'', JNum 0),
                (''reasoning'', JStr (''Error parsing response: '' @ content)),
                (''verdict'', JStr ''no'')])"

definition raw_if :: "EvaluateOptions \<Rightarrow> raw \<Rightarrow> raw option" where
  "raw_if options r = (if includeRawResponse options = Some True then Some r else None)"

definition parse_reply :: "(json \<Rightarrow> string) \<Rightarrow> string \<Rightarrow> EvaluateOptions \<Rightarrow> raw \<Rightarrow> error + provider_response" where
  "parse_reply stringify content options r =
     (let resultJson = resultJson_of content in
      case has_prop ''confidence'' resultJson of
        Inl e \<Rightarrow> Inl e
      | Inr False \<Rightarrow>
          Inr \<lparr>confidence = JNum 0,
               reasoning = JStr (''Invalid response format: '' @ stringify resultJson),
               verdict = JStr ''no'',
               failReason = None, suggestions = None,
               rawResponse = raw_if options r\<rparr>
      | Inr True \<Rightarrow>
          Inr \<lparr>confidence = the (get_prop resultJson ''confidence''),
               reasoning = or_default (get_prop resultJson ''reasoning'') ''No reasoning provided'',
               verdict = or_default (get_prop resultJson ''verdict'') ''no'',
               failReason = None, suggestions = None,
               rawResponse = raw_if options r\<rparr>)"

subsection \<open>One attempt: \<^verbatim>\<open>evaluateScreenshotInternal\<close>\<close>

definition api_error :: "(json \<Rightarrow> string) \<Rightarrow> http_response \<Rightarrow> error" where
  "api_error stringify response =
     Error (''API request failed with status '' @ show_nat (status response) @
            (if truthy (errorData_error response)
             then '': '' @ stringify (the (errorData_error response)) else []))"

definition resolve_key :: "LLMProviderConfig \<Rightarrow> world \<Rightarrow> string option" where
  "resolve_key config w = (if str_truthy (apiKey config) then apiKey config else envApiKey w)"

definition openai_evaluateScreenshotInternal ::
  "(json \<Rightarrow> string) \<Rightarrow> LLMProviderConfig \<Rightarrow> world \<Rightarrow> string \<Rightarrow> string \<Rightarrow> EvaluateOptions
     \<Rightarrow> error + provider_response" where
  "openai_evaluateScreenshotInternal stringify config w screenshotPath specification options =
     (case readFile w screenshotPath of
        Inl e \<Rightarrow> Inl (Error (''Failed to read image file: '' @ e))
      | Inr base64Image \<Rightarrow>
          if base64Image = [] then
            Inl (Error (''Could not read screenshot file: '' @ screenshotPath))
          else if \<not> str_truthy (resolve_key config w) then
            Inl (Error ''No OpenAI API key provided. Please check your environment variables.'')
          else
            (case fetch w (openai_request config (the (resolve_key config w))
                             (getSystemPrompt specification) base64Image options) of
               Inl e \<Rightarrow> Inl e
             | Inr response \<Rightarrow>
                 if \<not> ok response then Inl (api_error stringify response)
                 else
                   (case responseData response of
                      Inl e \<Rightarrow> Inl e
                    | Inr data \<Rightarrow>
                        parse_reply stringify (openai_content stringify data) options
                          (RawText (openai_content stringify data)))))"

definition anthropic_evaluateScreenshotInternal ::
  "(json \<Rightarrow> string) \<Rightarrow> LLMProviderConfig \<Rightarrow> world \<Rightarrow> string \<Rightarrow> string \<Rightarrow> EvaluateOptions
     \<Rightarrow> error + provider_response" where
  "anthropic_evaluateScreenshotInternal stringify config w screenshotPath specification options =
     (case readFile w screenshotPath of
        Inl e \<Rightarrow> Inl (Error (''Failed to read image file: '' @ e))
      | Inr base64Image \<Rightarrow>
          if base64Image = [] then
            Inl (Error (''Could not read screenshot file: '' @ screenshotPath))
          else if \<not> str_truthy (resolve_key config w) then
            Inl (Error ''No Anthropic API key provided. Please check your environment variables.'')
          else
            (case fetch w (anthropic_request config (the (resolve_key config w))
                             (getSystemPrompt specification) base64Image options) of
               Inl e \<Rightarrow> Inl e
             | Inr response \<Rightarrow>
                 if \<not> ok response then Inl (api_error stringify response)
                 else
                   (case responseData response of
                      Inl e \<Rightarrow> Inl e
                    | Inr data \<Rightarrow>
                        parse_reply stringify (anthropic_content data) options (RawData data))))"

text \<open>
  The body of the vendor's reply to an attempt, when the attempt gets that far: the
  screenshot is read and not empty, a key is found, the request is answered with a 2xx
  status and the body is JSON.
\<close>

definition reply_body :: "(string \<Rightarrow> string \<Rightarrow> http_request) \<Rightarrow> LLMProviderConfig \<Rightarrow> world \<Rightarrow> string
    \<Rightarrow> response_body option" where
  "reply_body request config w screenshotPath =
     (case readFile w screenshotPath of
        Inl e \<Rightarrow> None
      | Inr base64Image \<Rightarrow>
          if base64Image = [] \<or> \<not> str_truthy (resolve_key config w) then None
          else
            (case fetch w (request (the (resolve_key config w)) base64Image) of
               Inl e \<Rightarrow> None
             | Inr response \<Rightarrow>
                 if \<not> ok response then None
                 else (case responseData response of Inl e \<Rightarrow> None | Inr data \<Rightarrow> Some data)))"

definition openai_reply_body ::
  "LLMProviderConfig \<Rightarrow> world \<Rightarrow> string \<Rightarrow> string \<Rightarrow> EvaluateOptions \<Rightarrow> response_body option" where
  "openai_reply_body config w screenshotPath specification options =
     reply_body
       (\<lambda>key base64Image.
          openai_request config key (getSystemPrompt specification) base64Image options)
       config w screenshotPath"

definition anthropic_reply_body ::
  "LLMProviderConfig \<Rightarrow> world \<Rightarrow> string \<Rightarrow> string \<Rightarrow> EvaluateOptions \<Rightarrow> response_body option" where
  "anthropic_reply_body config w screenshotPath specification options =
     reply_body
       (\<lambda>key base64Image.
          anthropic_request config key (getSystemPrompt specification) base64Image options)
       config w screenshotPath"

section \<open>Base evaluation runner\<close>

text \<open>\<^verbatim>\<open>BaseLLMProvider.validateConfig\<close>; \<open>env\<close> is \<^verbatim>\<open>process.env\<close>.\<close>

definition validateConfig :: "(string \<Rightarrow> string option) \<Rightarrow> LLMProviderConfig \<Rightarrow> LLMProviderConfig" where
  "validateConfig env config =
     config\<lparr>apiKey :=
              (if \<not> str_truthy (apiKey config) \<and> str_truthy (apiKeyEnvVar config)
               then Some (case env (the (apiKeyEnvVar config)) of None \<Rightarrow> [] | Some v \<Rightarrow> v)
               else apiKey config),
            defaultConfidenceThreshold := Some (num_or (defaultConfidenceThreshold config) (8 / 10)),
            defaultMaxRetries := Some (num_or (defaultMaxRetries config) 3),
            temperature := Some (num_or (temperature config) (3 / 10))\<rparr>"

definition openai_validateConfig :: "(string \<Rightarrow> string option) \<Rightarrow> LLMProviderConfig \<Rightarrow> LLMProviderConfig" where
  "openai_validateConfig env config =
     (let validatedConfig = validateConfig env config
      in validatedConfig\<lparr>model := Some (model_or validatedConfig OPENAI_DEFAULT_MODEL)\<rparr>)"

definition anthropic_validateConfig :: "(string \<Rightarrow> string option) \<Rightarrow> LLMProviderConfig \<Rightarrow> LLMProviderConfig" where
  "anthropic_validateConfig env config =
     (let validatedConfig = validateConfig env config
      in validatedConfig\<lparr>model := Some (model_or validatedConfig ANTHROPIC_DEFAULT_MODEL)\<rparr>)"

text \<open>
  What the runner does that can be observed from outside: the invocations of
  \<^verbatim>\<open>evaluateScreenshotInternal\<close> (each sends at most one request), numbered from 1,
  and the waits, in milliseconds.
\<close>

datatype event = Invoke nat | Wait nat

text \<open>
  The \<^verbatim>\<open>for\<close> loop of \<^verbatim>\<open>evaluateScreenshot\<close>, from \<open>attempt\<close> on. \<open>internal a\<close> is
  the outcome of the \<open>a\<close>-th invocation of \<^verbatim>\<open>evaluateScreenshotInternal\<close>; \<open>limit\<close> is
  \<^verbatim>\<open>mergedOptions.maxRetries || 1\<close>. The last branch is the \<^verbatim>\<open>throw\<close> after the loop.
\<close>

function retry_loop ::
  "string \<Rightarrow> (nat \<Rightarrow> error + 'r) \<Rightarrow> int \<Rightarrow> nat \<Rightarrow> error option \<Rightarrow> (error + 'r) \<times> event list" where
  "retry_loop providerName internal limit attempt lastError =
     (if int attempt \<le> limit then
        (case internal attempt of
           Inr result \<Rightarrow> (Inr result, [Invoke attempt])
         | Inl error \<Rightarrow>
             if int attempt \<ge> limit then (Inl error, [Invoke attempt])
             else
               (let (outcome, events) =
                      retry_loop providerName internal limit (Suc attempt) (Some error)
                in (outcome, Invoke attempt # Wait (1000 * 2 ^ (attempt - 1)) # events)))
      else
        (Inl (case lastError of
                Some e \<Rightarrow> e
              | None \<Rightarrow> Error (''Unknown error evaluating screenshot with '' @ providerName)),
         []))"
  by pat_completeness auto
termination
  by (relation "measure (\<lambda>(providerName, internal, limit, attempt, lastError).
                  nat (limit + 1 - int attempt))") auto

declare retry_loop.simps [simp del]

text \<open>What a trace shows: the attempts made and the waits between them.\<close>

fun invocations :: "event list \<Rightarrow> nat list" where
  "invocations [] = []"
| "invocations (Invoke a # es) = a # invocations es"
| "invocations (Wait ms # es) = invocations es"

fun waits :: "event list \<Rightarrow> nat list" where
  "waits [] = []"
| "waits (Invoke a # es) = waits es"
| "waits (Wait ms # es) = ms # waits es"

text \<open>
  The trace of the failed attempts \<open>i, ..., k - 1\<close>, each followed by its wait of
  \<open>1000 * 2 ^ (attempt - 1)\<close> milliseconds.
\<close>

definition failed_attempts :: "nat \<Rightarrow> nat \<Rightarrow> event list" where
  "failed_attempts i k = concat (map (\<lambda>a. [Invoke a, Wait (1000 * 2 ^ (a - 1))]) [i..<k])"

text \<open>\<^verbatim>\<open>{confidenceThreshold: ..., maxRetries: ..., ...options}\<close>; an absent key is \<open>None\<close>.\<close>

definition mergeOptions :: "LLMProviderConfig \<Rightarrow> EvaluateOptions \<Rightarrow> EvaluateOptions" where
  "mergeOptions config options =
     options\<lparr>confidenceThreshold :=
               (case confidenceThreshold options of
                  Some t \<Rightarrow> Some t | None \<Rightarrow> defaultConfidenceThreshold config),
             maxRetries :=
               (case maxRetries options of
                  Some m \<Rightarrow> Some m | None \<Rightarrow> defaultMaxRetries config)\<rparr>"

text \<open>
  \<^verbatim>\<open>BaseLLMProvider.evaluateScreenshot\<close>. \<open>isBrowser\<close> is the module constant,
  \<open>pathExists\<close> is \<^verbatim>\<open>fs.pathExists\<close>.
\<close>

definition evaluateScreenshot ::
  "bool \<Rightarrow> (string \<Rightarrow> bool) \<Rightarrow> string \<Rightarrow> LLMProviderConfig
     \<Rightarrow> (nat \<Rightarrow> string \<Rightarrow> string \<Rightarrow> EvaluateOptions \<Rightarrow> error + 'r)
     \<Rightarrow> string \<Rightarrow> string \<Rightarrow> EvaluateOptions \<Rightarrow> (error + 'r) \<times> event list" where
  "evaluateScreenshot isBrowser pathExists providerName config internal
       screenshotPath specification options =
     (if \<not> isBrowser \<and> \<not> pathExists screenshotPath then
        (Inl (Error (''Screenshot does not exist at path: '' @ screenshotPath)), [])
      else
        (let mergedOptions = mergeOptions config options
         in retry_loop providerName
              (\<lambda>attempt. internal attempt screenshotPath specification mergedOptions)
              (num_or (maxRetries mergedOptions) 1) 1 None))"

subsection \<open>The two provider classes\<close>

text \<open>
  A provider object holds its validated configuration. The Node process it runs in:
  \<open>world_at a\<close> is what the \<open>a\<close>-th attempt finds.
\<close>

datatype provider = OpenAIProvider LLMProviderConfig | AnthropicProvider LLMProviderConfig

record node =
  isBrowser :: bool
  pathExists :: "string \<Rightarrow> bool"
  existsSync :: "string \<Rightarrow> bool"
  JSON_stringify :: "json \<Rightarrow> string"
  world_at :: "nat \<Rightarrow> world"

fun provider_evaluateScreenshot ::
  "node \<Rightarrow> provider \<Rightarrow> string \<Rightarrow> string \<Rightarrow> EvaluateOptions
     \<Rightarrow> (error + provider_response) \<times> event list" where
  "provider_evaluateScreenshot nd (OpenAIProvider config) screenshotPath specification options =
     evaluateScreenshot (isBrowser nd) (pathExists nd) ''OpenAI'' config
       (\<lambda>attempt. openai_evaluateScreenshotInternal (JSON_stringify nd) config (world_at nd attempt))
       screenshotPath specification options"
| "provider_evaluateScreenshot nd (AnthropicProvider config) screenshotPath specification options =
     evaluateScreenshot (isBrowser nd) (pathExists nd) ''Anthropic'' config
       (\<lambda>attempt. anthropic_evaluateScreenshotInternal (JSON_stringify nd) config (world_at nd attempt))
       screenshotPath specification options"

datatype LLMProviderType = anthropic | openai | custom

text \<open>
  \<^verbatim>\<open>createLLMProvider\<close>. The names of the two environment variables
  (\<^verbatim>\<open>ENV_VARS\<close>) are parameters.
\<close>

definition createLLMProvider ::
  "(string \<Rightarrow> string option) \<Rightarrow> string \<Rightarrow> string \<Rightarrow> LLMProviderType \<Rightarrow> LLMProviderConfig
     \<Rightarrow> error + provider" where
  "createLLMProvider env ANTHROPIC_API_KEY OPENAI_API_KEY type config =
     (let enhancedConfig =
        (if \<not> str_truthy (apiKey config) then
           (case type of
              anthropic \<Rightarrow> config\<lparr>apiKeyEnvVar := Some ANTHROPIC_API_KEY\<rparr>
            | openai \<Rightarrow> config\<lparr>apiKeyEnvVar := Some OPENAI_API_KEY\<rparr>
            | custom \<Rightarrow> config)
         else config)
      in case type of
           anthropic \<Rightarrow> Inr (AnthropicProvider (anthropic_validateConfig env enhancedConfig))
         | openai \<Rightarrow> Inr (OpenAIProvider (openai_validateConfig env enhancedConfig))
         | custom \<Rightarrow>
             Inl (Error ''Custom providers should be instantiated directly, not through the factory''))"

section \<open>Provider registry and dispatch: \<^verbatim>\<open>LLMService\<close>\<close>

record 'p LLMService =
  providers :: "string \<rightharpoonup> 'p"
  defaultProvider :: "string option"

definition new_LLMService :: "'p LLMService" where
  "new_LLMService = \<lparr>providers = Map.empty, defaultProvider = None\<rparr>"

text \<open>
  \<^verbatim>\<open>registerProvider\<close>: \<open>Inl\<close> is a ready instance, \<open>Inr\<close> a type and a configuration for
  the factory \<open>create\<close>, which may throw. Returns the new state and the instance.
\<close>

definition registerProvider ::
  "('t \<Rightarrow> 'c \<Rightarrow> error + 'p) \<Rightarrow> 'p LLMService \<Rightarrow> string \<Rightarrow> 'p + ('t \<times> 'c) \<Rightarrow> bool
     \<Rightarrow> error + ('p LLMService \<times> 'p)" where
  "registerProvider create service name provider makeDefault =
     (case (case provider of
              Inl instance \<Rightarrow> Inr instance
            | Inr (type, config) \<Rightarrow> create type config) of
        Inl e \<Rightarrow> Inl e
      | Inr providerInstance \<Rightarrow>
          Inr (service\<lparr>providers := (providers service)(name \<mapsto> providerInstance),
                       defaultProvider :=
                         (if makeDefault \<or> defaultProvider service = None then Some name
                          else defaultProvider service)\<rparr>,
               providerInstance))"

definition not_registered :: "string \<Rightarrow> error" where
  \<open>not_registered name = Error (''Provider "'' @ name @ ''" is not registered'')\<close>

definition setDefaultProvider :: "'p LLMService \<Rightarrow> string \<Rightarrow> error + 'p LLMService" where
  "setDefaultProvider service name =
     (if providers service name = None then Inl (not_registered name)
      else Inr (service\<lparr>defaultProvider := Some name\<rparr>))"

text \<open>\<^verbatim>\<open>getProvider(name?)\<close>: \<open>None\<close> is the omitted argument.\<close>

definition getProvider :: "'p LLMService \<Rightarrow> string option \<Rightarrow> error + 'p" where
  "getProvider service name =
     (let providerName = (if str_truthy name then name else defaultProvider service)
      in if \<not> str_truthy providerName then
           Inl (Error ''No provider specified and no default provider is set'')
         else
           (case providers service (the providerName) of
              None \<Rightarrow> Inl (not_registered (the providerName))
            | Some provider \<Rightarrow> Inr provider))"

text \<open>
  \<^verbatim>\<open>LLMService.evaluateScreenshot\<close>; \<open>evaluate\<close> is the \<^verbatim>\<open>evaluateScreenshot\<close> method of
  the provider objects.
\<close>

definition service_evaluateScreenshot ::
  "('p \<Rightarrow> string \<Rightarrow> string \<Rightarrow> EvaluateOptions \<Rightarrow> (error + 'r) \<times> event list)
     \<Rightarrow> 'p LLMService \<Rightarrow> string \<Rightarrow> string \<Rightarrow> EvaluateOptions \<Rightarrow> string option
     \<Rightarrow> (error + 'r) \<times> event list" where
  "service_evaluateScreenshot evaluate service screenshotPath specification options providerName =
     (case getProvider service providerName of
        Inl e \<Rightarrow> (Inl e, [])
      | Inr provider \<Rightarrow> evaluate provider screenshotPath specification options)"

section \<open>Orchestration entry point: the Cypress task\<close>

text \<open>
  The task \<^verbatim>\<open>evaluateScreenshotWithLLM\<close> of the plugin. A rejection of the service call
  is handled by its \<^verbatim>\<open>.catch\<close>; nothing in the \<^verbatim>\<open>try\<close> block throws synchronously.
\<close>

definition evaluateScreenshotWithLLM ::
  "(string \<Rightarrow> bool)
     \<Rightarrow> ('p \<Rightarrow> string \<Rightarrow> string \<Rightarrow> EvaluateOptions \<Rightarrow> (error + provider_response) \<times> event list)
     \<Rightarrow> 'p LLMService \<Rightarrow> string \<Rightarrow> string \<Rightarrow> EvaluateOptions \<Rightarrow> string option
     \<Rightarrow> (error + provider_response) \<times> event list" where
  "evaluateScreenshotWithLLM fs_existsSync evaluate service screenshotPath specification
       options providerName =
     (if \<not> fs_existsSync screenshotPath then
        (Inr \<lparr>confidence = JNum 0,
              reasoning = JStr (''Screenshot does not exist at path: '' @ screenshotPath),
              verdict = JStr ''no'',
              failReason = Some (JStr ''Screenshot file not found''),
              suggestions = None, rawResponse = None\<rparr>, [])
      else
        (case service_evaluateScreenshot evaluate service screenshotPath specification
                options providerName of
           (Inr result, events) \<Rightarrow> (Inr result, events)
         | (Inl error, events) \<Rightarrow>
             (Inr \<lparr>confidence = JNum 0,
                   reasoning = JStr (message error),
                   verdict = JStr ''no'',
                   failReason = Some (JStr ''Error communicating with LLM service''),
                   suggestions = None, rawResponse = None\<rparr>, events)))"

section \<open>The Cypress commands\<close>

text \<open>
  The options of \<^verbatim>\<open>cy.vibeCheck\<close> and \<^verbatim>\<open>cy.configureVibes\<close>: the evaluation options
  and \<^verbatim>\<open>name\<close>, \<^verbatim>\<open>provider\<close>.
\<close>

record VibeOptions = EvaluateOptions +
  name :: "string option"
  provider :: "string option"

text \<open>
  \<^verbatim>\<open>runtimeConfig\<close>: the fields of \<^verbatim>\<open>VibeConfig\<close>, and in \<open>own_properties\<close> the
  properties that \<^verbatim>\<open>VibeConfig\<close> does not declare and \<^verbatim>\<open>Object.assign\<close> has put on
  the object itself.
\<close>

record VibeConfig =
  config_defaultProvider :: string
  config_providers :: "(string \<times> LLMProviderType \<times> LLMProviderConfig) list"
  evaluation :: EvaluateOptions
  own_properties :: VibeOptions

definition no_options :: VibeOptions where
  "no_options =
     \<lparr>confidenceThreshold = None, includeRawResponse = None, maxRetries = None,
      modelParameters = None, name = None, provider = None\<rparr>"

definition no_config :: LLMProviderConfig where
  "no_config =
     \<lparr>apiKey = None, apiKeyEnvVar = None, defaultConfidenceThreshold = None,
      defaultMaxRetries = None, temperature = None, model = None\<rparr>"

text \<open>\<^verbatim>\<open>defaultConfig\<close>, which \<^verbatim>\<open>loadConfig\<close> starts from; \<open>env\<close> is \<^verbatim>\<open>process.env\<close>.\<close>

definition defaultConfig :: "(string \<Rightarrow> string option) \<Rightarrow> VibeConfig" where
  "defaultConfig env =
     \<lparr>config_defaultProvider = ''openai'',
      config_providers =
        [(''openai'', openai,
            no_config\<lparr>apiKey := Some (case env ''OPENAI_API_KEY'' of None \<Rightarrow> [] | Some k \<Rightarrow> k),
                      defaultConfidenceThreshold := Some (6 / 10)\<rparr>),
         (''anthropic'', anthropic,
            no_config\<lparr>apiKey := Some (case env ''ANTHROPIC_API_KEY'' of None \<Rightarrow> [] | Some k \<Rightarrow> k),
                      defaultConfidenceThreshold := Some (6 / 10)\<rparr>)],
      evaluation =
        \<lparr>confidenceThreshold = Some (8 / 10), includeRawResponse = Some False,
         maxRetries = Some 2, modelParameters = Some []\<rparr>,
      own_properties = no_options\<rparr>"

text \<open>A key that the second object has overrides the first object's.\<close>

definition pick :: "'a option \<Rightarrow> 'a option \<Rightarrow> 'a option" where
  "pick new old = (case new of Some v \<Rightarrow> Some v | None \<Rightarrow> old)"

text \<open>\<^verbatim>\<open>configureVibes\<close>: \<^verbatim>\<open>Object.assign(runtimeConfig, options)\<close>.\<close>

definition configureVibes :: "VibeConfig \<Rightarrow> VibeOptions \<Rightarrow> VibeConfig" where
  "configureVibes runtimeConfig options =
     runtimeConfig\<lparr>own_properties :=
       \<lparr>confidenceThreshold =
          pick (confidenceThreshold options) (confidenceThreshold (own_properties runtimeConfig)),
        includeRawResponse =
          pick (includeRawResponse options) (includeRawResponse (own_properties runtimeConfig)),
        maxRetries = pick (maxRetries options) (maxRetries (own_properties runtimeConfig)),
        modelParameters =
          pick (modelParameters options) (modelParameters (own_properties runtimeConfig)),
        name = pick (name options) (name (own_properties runtimeConfig)),
        provider = pick (provider options) (provider (own_properties runtimeConfig))\<rparr>\<rparr>"

text \<open>
  \<^verbatim>\<open>{...runtimeConfig.evaluation, provider: runtimeConfig.defaultProvider, ...options}\<close>
\<close>

definition mergedOptions :: "VibeConfig \<Rightarrow> VibeOptions \<Rightarrow> VibeOptions" where
  "mergedOptions runtimeConfig options =
     \<lparr>confidenceThreshold =
        pick (confidenceThreshold options) (confidenceThreshold (evaluation runtimeConfig)),
      includeRawResponse =
        pick (includeRawResponse options) (includeRawResponse (evaluation runtimeConfig)),
      maxRetries = pick (maxRetries options) (maxRetries (evaluation runtimeConfig)),
      modelParameters =
        pick (modelParameters options) (modelParameters (evaluation runtimeConfig)),
      name = name options,
      provider = pick (provider options) (Some (config_defaultProvider runtimeConfig))\<rparr>"

text \<open>
  How the runtime prints a number: \<^verbatim>\<open>toFixed(2)\<close> and the conversion in a template
  literal.
\<close>

record number_format =
  toFixed2 :: "rat \<Rightarrow> string"
  numToString :: "rat \<Rightarrow> string"

definition cross_mark :: string where
  "cross_mark = [CHR 0xE2, CHR 0x9D, CHR 0x8C]"

text \<open>The array literal of the failure message, then \<^verbatim>\<open>.filter(Boolean).join("\n")\<close>.\<close>

definition failure_lines ::
  "number_format \<Rightarrow> string \<Rightarrow> EvaluationResult \<Rightarrow> rat option \<Rightarrow> string \<Rightarrow> string list" where
  \<open>failure_lines fmt specification result threshold actualScreenshotPath =
     [cross_mark @ '' Vibe check failed!'',
      ''Specification: "'' @ specification @ ''"'',
      ''Confidence: '' @ toFixed2 fmt (confidence result) @ '' (threshold: '' @
        (case threshold of None \<Rightarrow> ''undefined'' | Some t \<Rightarrow> numToString fmt t) @ '')'',
      ''Reasoning: '' @
        (if reasoning result \<noteq> [] then reasoning result else ''No reasoning provided''),
      (if str_truthy (failReason result)
       then ''Fail reason: '' @ the (failReason result) else []),
      (case suggestions result of
         None \<Rightarrow> []
       | Some ss \<Rightarrow> if length ss > 0 then ''Suggestions: '' @ join '', '' ss else []),
      ''Screenshot path: '' @ actualScreenshotPath]\<close>

definition failureMessage ::
  "number_format \<Rightarrow> string \<Rightarrow> EvaluationResult \<Rightarrow> rat option \<Rightarrow> string \<Rightarrow> string" where
  "failureMessage fmt specification result threshold actualScreenshotPath =
     join [CHR 0x0A]
       (filter (\<lambda>line. line \<noteq> [])
          (failure_lines fmt specification result threshold actualScreenshotPath))"

text \<open>
  The callback that receives the task's result: the decision gate. A comparison with
  \<^verbatim>\<open>undefined\<close> is false.
\<close>

definition passes :: "EvaluationResult \<Rightarrow> rat option \<Rightarrow> bool" where
  "passes result threshold =
     (verdict result = ''yes'' \<and>
      (case threshold of None \<Rightarrow> False | Some t \<Rightarrow> confidence result \<ge> t))"

definition decision_gate ::
  "number_format \<Rightarrow> 'subject \<Rightarrow> string \<Rightarrow> rat option \<Rightarrow> string \<Rightarrow> EvaluationResult
     \<Rightarrow> error + 'subject" where
  "decision_gate fmt subject specification threshold actualScreenshotPath result =
     (if passes result threshold then Inr subject
      else Inl (Error (failureMessage fmt specification result threshold actualScreenshotPath)))"

text \<open>
  \<^verbatim>\<open>vibeCheck\<close>. The subject is the list of selected elements; \<open>capturedScreenshotPath\<close> is
  the path Cypress reports for the screenshot; \<open>llmBridge\<close> runs the task and delivers its
  result.
\<close>

definition evaluate_options :: "VibeOptions \<Rightarrow> EvaluateOptions" where
  "evaluate_options merged =
     \<lparr>confidenceThreshold = confidenceThreshold merged,
      includeRawResponse = includeRawResponse merged,
      maxRetries = maxRetries merged,
      modelParameters = modelParameters merged\<rparr>"

definition vibeCheck ::
  "number_format \<Rightarrow> VibeConfig
     \<Rightarrow> (string \<Rightarrow> string \<Rightarrow> EvaluateOptions \<Rightarrow> string option \<Rightarrow> error + EvaluationResult)
     \<Rightarrow> string \<Rightarrow> 'element list \<Rightarrow> string \<Rightarrow> VibeOptions \<Rightarrow> error + 'element list" where
  "vibeCheck fmt runtimeConfig llmBridge capturedScreenshotPath subject specification options =
     (if subject = [] then Inl (Error ''No element found for vibeCheck'')
      else
        (let merged = mergedOptions runtimeConfig options
         in case llmBridge capturedScreenshotPath specification (evaluate_options merged)
                   (provider merged) of
              Inl e \<Rightarrow> Inl e
            | Inr result \<Rightarrow>
                decision_gate fmt subject specification (confidenceThreshold merged)
                  capturedScreenshotPath result))"

section \<open>Concrete inputs for the examples\<close>

text \<open>
  The general statements below hold for every \<^verbatim>\<open>JSON.stringify\<close> and every number format.
  The examples use these: a serialiser for the values that occur in them (numbers with a
  finite decimal expansion), and two-decimal rounding for non-negative numbers.
\<close>

fun frac_digits :: "nat \<Rightarrow> nat \<Rightarrow> nat \<Rightarrow> string" where
  "frac_digits 0 r d = []"
| "frac_digits (Suc fuel) r d =
     (if r = 0 then []
      else ''0123456789'' ! ((10 * r) div d) # frac_digits fuel ((10 * r) mod d) d)"

definition show_rat :: "rat \<Rightarrow> string" where
  "show_rat x =
     (let (p, q) = quotient_of \<bar>x\<bar>; n = nat p; d = nat q
      in (if x < 0 then ''-'' else []) @ show_nat (n div d) @
         (if n mod d = 0 then [] else ''.'' @ frac_digits 17 (n mod d) d))"

definition quote :: "string \<Rightarrow> string" where
  "quote s =
     [CHR 0x22] @
     concat (map (\<lambda>c. if c = CHR 0x22 \<or> c = CHR 0x5C then [CHR 0x5C, c] else [c]) s) @
     [CHR 0x22]"

fun example_stringify :: "json \<Rightarrow> string" where
  "example_stringify JNull = ''null''"
| "example_stringify (JBool b) = (if b then ''true'' else ''false'')"
| "example_stringify (JNum x) = show_rat x"
| "example_stringify (JStr s) = quote s"
| "example_stringify (JArr xs) = ''['' @ join '','' (map example_stringify xs) @ '']''"
| "example_stringify (JObj kvs) =
     ''{'' @ join '','' (map (\<lambda>(k, v). quote k @ '':'' @ example_stringify v) kvs) @ ''}''"

definition example_format :: number_format where
  "example_format =
     \<lparr>toFixed2 = (\<lambda>x. let n = nat \<lfloor>x * 100 + 1 / 2\<rfloor>
                       in show_nat (n div 100) @ ''.'' @
                          [''0123456789'' ! (n div 10 mod 10), ''0123456789'' ! (n mod 10)]),
      numToString = show_rat\<rparr>"

text \<open>Replies of the model.\<close>

definition reply_in_prose :: string where
  \<open>reply_in_prose = ''blah {"confidence":0.9,"verdict":"yes","reasoning":"ok"} blah''\<close>

definition reply_with_braces :: string where
  \<open>reply_with_braces =
     ''Result: {"confidence":0.9,"verdict":"yes","reasoning":"ok"} Notes: {none}''\<close>

definition reply_object :: string where
  \<open>reply_object = ''{"confidence":0.9,"verdict":"yes","reasoning":"ok"}''\<close>

definition reply_without_confidence :: string where
  \<open>reply_without_confidence = ''{"reasoning":"nothing"}''\<close>

text \<open>Evaluation options: none given, and the raw response asked for.\<close>

definition options_none :: EvaluateOptions where
  "options_none =
     \<lparr>confidenceThreshold = None, includeRawResponse = None, maxRetries = None,
      modelParameters = None\<rparr>"

definition options_raw :: EvaluateOptions where
  "options_raw = options_none\<lparr>includeRawResponse := Some True\<rparr>"

text \<open>
  Worlds: the screenshot is readable and a key is set; the vendor answers 200 with the
  given body, or 500.
\<close>

definition http_200 :: "response_body \<Rightarrow> http_request \<Rightarrow> error + http_response" where
  "http_200 data request =
     Inr \<lparr>ok = True, status = 200, errorData_error = None, responseData = Inr data\<rparr>"

definition http_500 :: "http_request \<Rightarrow> error + http_response" where
  "http_500 request =
     Inr \<lparr>ok = False, status = 500, errorData_error = None,
          responseData = Inl (Error ''Unexpected end of JSON input'')\<rparr>"

definition read_png :: "string \<Rightarrow> string + string" where
  "read_png file = Inr ''iVBORw0KGgo=''"

definition world_answering :: "response_body \<Rightarrow> world" where
  "world_answering data =
     \<lparr>readFile = read_png, envApiKey = Some ''sk-test'', fetch = http_200 data\<rparr>"

definition world_failing :: world where
  "world_failing = \<lparr>readFile = read_png, envApiKey = Some ''sk-test'', fetch = http_500\<rparr>"

definition openai_reply :: "string \<Rightarrow> response_body" where
  "openai_reply reply = OpenAIBody [\<lparr>message_content = Some reply, choice_value = JNull\<rparr>]"

definition anthropic_reply :: "string \<Rightarrow> response_body" where
  "anthropic_reply reply = AnthropicBody [\<lparr>block_type = ''text'', block_text = Some reply\<rparr>]"

definition always :: "'a \<Rightarrow> 'b \<Rightarrow> 'a" where
  "always x y = x"

text \<open>A Node process in which every file exists and every request is answered with 500.\<close>

definition node_failing :: node where
  "node_failing =
     \<lparr>isBrowser = False, pathExists = always True, existsSync = always True,
      JSON_stringify = example_stringify, world_at = always world_failing\<rparr>"

text \<open>Two provider objects, as the factory builds them from empty configurations.\<close>

definition provider_A :: provider where
  "provider_A = OpenAIProvider (openai_validateConfig Map.empty no_config)"

definition provider_B :: provider where
  "provider_B = AnthropicProvider (anthropic_validateConfig Map.empty no_config)"

definition service_with_A :: "provider LLMService" where
  "service_with_A = \<lparr>providers = [''A'' \<mapsto> provider_A], defaultProvider = Some ''A''\<rparr>"

text \<open>Results at the type the \<^verbatim>\<open>vibeCheck\<close> command declares.\<close>

definition result_yes :: "rat \<Rightarrow> EvaluationResult" where
  "result_yes c =
     \<lparr>confidence = c, reasoning = ''The button is blue.'', verdict = ''yes'',
      failReason = None, suggestions = None, rawResponse = None\<rparr>"

definition result_no :: EvaluationResult where
  "result_no =
     \<lparr>confidence = 9 / 10, reasoning = ''The button is red.'', verdict = ''no'',
      failReason = Some ''wrong colour'', suggestions = Some [''make it blue'', ''add a label''],
      rawResponse = None\<rparr>"

definition bridge_delivering ::
  "EvaluationResult \<Rightarrow> string \<Rightarrow> string \<Rightarrow> EvaluateOptions \<Rightarrow> string option
     \<Rightarrow> error + EvaluationResult" where
  "bridge_delivering result screenshotPath specification options providerName = Inr result"

text \<open>The factory, in a process without environment variables.\<close>

definition example_factory :: "LLMProviderType \<Rightarrow> LLMProviderConfig \<Rightarrow> error + provider" where
  "example_factory = createLLMProvider Map.empty ''ANTHROPIC_API_KEY'' ''OPENAI_API_KEY''"

text \<open>The registry after a first registration under the empty name.\<close>

definition service_unnamed :: "provider LLMService" where
  "service_unnamed = \<lparr>providers = ['''' \<mapsto> provider_A], defaultProvider = Some []\<rparr>"

text \<open>The runtime configuration after \<^verbatim>\<open>cy.configureVibes({confidenceThreshold: 0.5})\<close>.\<close>

definition configured_half :: VibeConfig where
  "configured_half =
     configureVibes (defaultConfig Map.empty) (no_options\<lparr>confidenceThreshold := Some (1 / 2)\<rparr>)"

text \<open>Options whose model parameters set the temperature.\<close>

definition options_temperature :: "rat \<Rightarrow> EvaluateOptions" where
  "options_temperature x = options_none\<lparr>modelParameters := Some [(''temperature'', JNum x)]\<rparr>"

section \<open>The fuel of the JSON parser\<close>

text \<open>
  \<open>parse_value\<close> recurses on fuel. The lemmas of this section show that the fuel
  \<open>JSON_parse\<close> starts with never runs out: a parse that succeeds with any fuel succeeds
  with that one, so \<open>JSON_parse s = None\<close> means that the text is rejected.
\<close>


lemma skip_ws_length: "length (skip_ws s) \<le> length s"
  by (simp add: skip_ws_def length_dropWhile_le)

lemma skip_ws_Cons: "skip_ws s = c # t \<Longrightarrow> length t < length s"
  using skip_ws_length [of s] by simp

lemma parse_chars_shorter: "parse_chars s = Some (str, r) \<Longrightarrow> length r < length s"
proof (induction "length s" arbitrary: s str r rule: less_induct)
  case less
  show ?case
  proof (cases s)
    case Nil
    with less.prems show ?thesis by simp
  next
    case (Cons c cs)
    have IH: "parse_chars t = Some (a, r) \<Longrightarrow> length t \<le> length cs \<Longrightarrow> length r < length t" for t a
      using less.hyps [of t a r] Cons by simp
    from less.prems Cons show ?thesis
      by (auto split: if_splits list.splits option.splits dest!: IH)
  qed
qed

lemma strip_prefix_shorter: "strip_prefix p s = Some r \<Longrightarrow> p \<noteq> [] \<Longrightarrow> length r < length s"
proof -
  assume a: "strip_prefix p s = Some r" and p: "p \<noteq> []"
  then have "take (length p) s = p" and r: "r = drop (length p) s"
    by (auto simp: strip_prefix_def split: if_splits)
  then have "length (take (length p) s) = length p"
    by simp
  then have "length p \<le> length s"
    by simp
  with p r show ?thesis by (cases p) auto
qed

lemma drop_digits_le: "length (dropWhile is_digit t) \<le> length t"
  by (rule length_dropWhile_le)

lemma parse_int_part_shorter: "parse_int_part t = Some (ip, u) \<Longrightarrow> length u < length t"
  using drop_digits_le
  by (auto simp: parse_int_part_def le_imp_less_Suc split: list.splits if_splits)

lemma parse_frac_part_shorter: "parse_frac_part t = Some (fp, u) \<Longrightarrow> length u \<le> length t"
  using drop_digits_le
  by (auto simp: parse_frac_part_def le_SucI split: list.splits if_splits)

lemma parse_exp_part_shorter: "parse_exp_part t = Some (e, u) \<Longrightarrow> length u \<le> length t"
proof -
  assume a: "parse_exp_part t = Some (e, u)"
  show ?thesis
  proof (cases t)
    case Nil
    with a show ?thesis by (simp add: parse_exp_part_def)
  next
    case (Cons c r)
    show ?thesis
    proof (cases "c = CHR ''e'' \<or> c = CHR ''E''")
      case False
      with a Cons show ?thesis by (simp add: parse_exp_part_def)
    next
      case True
      obtain neg r' where sign: "(case r of
                  d # r'' \<Rightarrow>
                    if d = CHR ''-'' then (True, r'')
                    else if d = CHR ''+'' then (False, r'')
                    else (False, r)
                | [] \<Rightarrow> (False, r)) = (neg, r')"
        by (cases "(case r of
                  d # r'' \<Rightarrow>
                    if d = CHR ''-'' then (True, r'')
                    else if d = CHR ''+'' then (False, r'')
                    else (False, r)
                | [] \<Rightarrow> (False, r))") 
      then have "length r' \<le> length r"
        by (auto split: list.splits if_splits)
      moreover have "u = dropWhile is_digit r'"
        using a Cons True sign by (auto simp: parse_exp_part_def split: if_splits)
      ultimately show ?thesis
        using drop_digits_le [of r'] Cons by simp
    qed
  qed
qed

lemma parse_number_shorter: "parse_number s = Some (x, r) \<Longrightarrow> length r < length s"
proof -
  assume a: "parse_number s = Some (x, r)"
  obtain neg s1 where sign: "(case s of c # r \<Rightarrow> if c = CHR ''-'' then (True, r) else (False, s)
                       | [] \<Rightarrow> (False, s)) = (neg, s1)"
    by (cases "(case s of c # r \<Rightarrow> if c = CHR ''-'' then (True, r) else (False, s)
                       | [] \<Rightarrow> (False, s))")
  then have s1: "length s1 \<le> length s"
    by (auto split: list.splits if_splits)
  from a sign obtain ip s2 fp s3 e s4 where
    "parse_int_part s1 = Some (ip, s2)" "parse_frac_part s2 = Some (fp, s3)"
    "parse_exp_part s3 = Some (e, s4)" "r = s4"
    by (auto simp: parse_number_def Let_def split: option.splits)
  with s1 show ?thesis
    using parse_int_part_shorter parse_frac_part_shorter parse_exp_part_shorter
    by fastforce
qed

text \<open>What a successful call at fuel \<open>Suc n\<close> consists of.\<close>

lemma parse_elems_Suc:
  "parse_elems (Suc n) s = Some (vs, r) \<longleftrightarrow>
     (\<exists>v r1 c t. parse_value n s = Some (v, r1) \<and> skip_ws r1 = c # t \<and>
        ((c = CHR '','' \<and> (\<exists>vs'. parse_elems n t = Some (vs', r) \<and> vs = v # vs')) \<or>
         (c \<noteq> CHR '','' \<and> c = CHR '']'' \<and> t = r \<and> vs = [v])))"
  by (auto split: option.splits list.splits if_splits)

lemma parse_members_Suc:
  "parse_members (Suc n) s = Some (kvs, r) \<longleftrightarrow>
     (\<exists>t0 k r1 t1 v r3 d t.
        skip_ws s = CHR 0x22 # t0 \<and> parse_chars t0 = Some (k, r1) \<and>
        skip_ws r1 = CHR '':'' # t1 \<and> parse_value n t1 = Some (v, r3) \<and>
        skip_ws r3 = d # t \<and>
        ((d = CHR '','' \<and> (\<exists>kvs'. parse_members n t = Some (kvs', r) \<and> kvs = (k, v) # kvs')) \<or>
         (d \<noteq> CHR '','' \<and> d = CHR ''}'' \<and> t = r \<and> kvs = [(k, v)])))"
  by (auto split: option.splits list.splits if_splits)

lemma parse_value_scalar:
  "skip_ws s = c # t \<Longrightarrow> c \<noteq> CHR ''{'' \<Longrightarrow> c \<noteq> CHR ''['' \<Longrightarrow>
   parse_value (Suc n) s = parse_value (Suc 0) s"
  by simp

lemma parse_value_scalar_shorter:
  assumes "skip_ws s = c # t" "c \<noteq> CHR ''{''" "c \<noteq> CHR ''[''"
    and "parse_value (Suc 0) s = Some (v, r)"
  shows "length r < length s"
proof -
  have t: "length t < length s"
    using assms(1) by (rule skip_ws_Cons)
  have "length r \<le> length t"
    using assms
    by (auto split: if_splits
        dest!: parse_chars_shorter parse_number_shorter strip_prefix_shorter)
  with t show ?thesis by simp
qed

lemma parse_value_empty:
  "skip_ws s = CHR ''{'' # t \<Longrightarrow> skip_ws t = CHR ''}'' # r \<Longrightarrow>
   parse_value (Suc n) s = Some (JObj [], r)"
  "skip_ws s = CHR ''['' # t \<Longrightarrow> skip_ws t = CHR '']'' # r \<Longrightarrow>
   parse_value (Suc n) s = Some (JArr [], r)"
  by simp_all

lemma parse_value_nested:
  "skip_ws s = CHR ''{'' # t \<Longrightarrow> skip_ws t = d # t' \<Longrightarrow> d \<noteq> CHR ''}'' \<Longrightarrow>
   parse_value (Suc n) s = map_option (\<lambda>(kvs, u). (JObj kvs, u)) (parse_members n t)"
  "skip_ws s = CHR ''['' # t \<Longrightarrow> skip_ws t = d # t' \<Longrightarrow> d \<noteq> CHR '']'' \<Longrightarrow>
   parse_value (Suc n) s = map_option (\<lambda>(vs, u). (JArr vs, u)) (parse_elems n t)"
  by simp_all

lemma parse_value_starts:
  "parse_value (Suc n) s = Some (v, r) \<Longrightarrow> \<exists>c t. skip_ws s = c # t"
  by (cases "skip_ws s") simp_all

lemma parse_value_nested_starts:
  "skip_ws s = c # t \<Longrightarrow> c = CHR ''{'' \<or> c = CHR ''['' \<Longrightarrow>
   parse_value (Suc n) s = Some (v, r) \<Longrightarrow> \<exists>d t'. skip_ws t = d # t'"
  by (cases "skip_ws t") auto

text \<open>
  A successful call consumes input, and succeeds with the same result at every fuel that
  is at least twice the number of characters it consumes.
\<close>

lemma fuel_by_consumption:
  "(\<forall>s v r. parse_value n s = Some (v, r) \<longrightarrow>
      length r < length s \<and>
      (\<forall>m. 2 * (length s - length r) \<le> m + 1 \<longrightarrow> parse_value m s = Some (v, r))) \<and>
   (\<forall>s vs r. parse_elems n s = Some (vs, r) \<longrightarrow>
      length r + 2 \<le> length s \<and>
      (\<forall>m. 2 * (length s - length r) \<le> m + 2 \<longrightarrow> parse_elems m s = Some (vs, r))) \<and>
   (\<forall>s kvs r. parse_members n s = Some (kvs, r) \<longrightarrow>
      length r + 2 \<le> length s \<and>
      (\<forall>m. 2 * (length s - length r) \<le> m + 2 \<longrightarrow> parse_members m s = Some (kvs, r)))"
proof (induction n)
  case 0
  show ?case by simp
next
  case (Suc n)
  then have V: "length r < length s"
      "2 * (length s - length r) \<le> m + 1 \<Longrightarrow> parse_value m s = Some (v, r)"
    if "parse_value n s = Some (v, r)" for s v r m
    using that by blast+
  from Suc have E: "length r + 2 \<le> length s"
      "2 * (length s - length r) \<le> m + 2 \<Longrightarrow> parse_elems m s = Some (vs, r)"
    if "parse_elems n s = Some (vs, r)" for s vs r m
    using that by blast+
  from Suc have M: "length r + 2 \<le> length s"
      "2 * (length s - length r) \<le> m + 2 \<Longrightarrow> parse_members m s = Some (kvs, r)"
    if "parse_members n s = Some (kvs, r)" for s kvs r m
    using that by blast+
  have for_value: "length r < length s \<and>
      (\<forall>m. 2 * (length s - length r) \<le> m + 1 \<longrightarrow> parse_value m s = Some (v, r))"
    if a: "parse_value (Suc n) s = Some (v, r)" for s v r
  proof -
    from a obtain c t where c: "skip_ws s = c # t"
      using parse_value_starts by blast
    then have t: "length t < length s" by (rule skip_ws_Cons)
    consider (object) "c = CHR ''{''" | (array) "c = CHR ''[''"
      | (scalar) "c \<noteq> CHR ''{''" "c \<noteq> CHR ''[''"
      by blast
    then show ?thesis
    proof cases
      case scalar
      with c a have one: "parse_value (Suc 0) s = Some (v, r)"
        using parse_value_scalar [of s c t n] by simp
      with c scalar have short: "length r < length s"
        by (rule parse_value_scalar_shorter)
      have "parse_value m s = Some (v, r)" if "2 * (length s - length r) \<le> m + 1" for m
      proof (cases m)
        case 0
        with that short show ?thesis by simp
      next
        case (Suc m')
        with c scalar one show ?thesis
          using parse_value_scalar [of s c t m'] by simp
      qed
      with short show ?thesis by blast
    next
      case object
      with c a obtain d t' where d: "skip_ws t = d # t'"
        using parse_value_nested_starts by blast
      then have t': "length t' < length t" by (rule skip_ws_Cons)
      show ?thesis
      proof (cases "d = CHR ''}''")
        case True
        with c d object a have r: "r = t'" "v = JObj []"
          by simp_all
        have "parse_value m s = Some (v, r)" if "2 * (length s - length r) \<le> m + 1" for m
        proof (cases m)
          case 0
          with that t t' r show ?thesis by simp
        next
          case (Suc m')
          with c d object True r show ?thesis
            using parse_value_empty(1) [of s t t' m'] by simp
        qed
        with t t' r show ?thesis by simp
      next
        case False
        with c d object a obtain kvs where
          k: "parse_members n t = Some (kvs, r)" "v = JObj kvs"
          using parse_value_nested(1) [of s t d t' n] by auto
        from M(1) [OF k(1)] t have short: "length r < length s" by simp
        have "parse_value m s = Some (v, r)" if "2 * (length s - length r) \<le> m + 1" for m
        proof (cases m)
          case 0
          with that short show ?thesis by simp
        next
          case (Suc m')
          with that t have "2 * (length t - length r) \<le> m' + 2" by simp
          from M(2) [OF k(1) this] c d object False k(2) Suc show ?thesis
            using parse_value_nested(1) [of s t d t' m'] by simp
        qed
        with short show ?thesis by blast
      qed
    next
      case array
      with c a obtain d t' where d: "skip_ws t = d # t'"
        using parse_value_nested_starts by blast
      then have t': "length t' < length t" by (rule skip_ws_Cons)
      show ?thesis
      proof (cases "d = CHR '']''")
        case True
        with c d array a have r: "r = t'" "v = JArr []"
          by simp_all
        have "parse_value m s = Some (v, r)" if "2 * (length s - length r) \<le> m + 1" for m
        proof (cases m)
          case 0
          with that t t' r show ?thesis by simp
        next
          case (Suc m')
          with c d array True r show ?thesis
            using parse_value_empty(2) [of s t t' m'] by simp
        qed
        with t t' r show ?thesis by simp
      next
        case False
        with c d array a obtain vs where
          k: "parse_elems n t = Some (vs, r)" "v = JArr vs"
          using parse_value_nested(2) [of s t d t' n] by auto
        from E(1) [OF k(1)] t have short: "length r < length s" by simp
        have "parse_value m s = Some (v, r)" if "2 * (length s - length r) \<le> m + 1" for m
        proof (cases m)
          case 0
          with that short show ?thesis by simp
        next
          case (Suc m')
          with that t have "2 * (length t - length r) \<le> m' + 2" by simp
          from E(2) [OF k(1) this] c d array False k(2) Suc show ?thesis
            using parse_value_nested(2) [of s t d t' m'] by simp
        qed
        with short show ?thesis by blast
      qed
    qed
  qed
  have for_elems: "length r + 2 \<le> length s \<and>
      (\<forall>m. 2 * (length s - length r) \<le> m + 2 \<longrightarrow> parse_elems m s = Some (vs, r))"
    if a: "parse_elems (Suc n) s = Some (vs, r)" for s vs r
  proof -
    from a obtain v r1 c t where
      v: "parse_value n s = Some (v, r1)" and c: "skip_ws r1 = c # t" and
      rest: "(c = CHR '','' \<and> (\<exists>vs'. parse_elems n t = Some (vs', r) \<and> vs = v # vs')) \<or>
         (c \<noteq> CHR '','' \<and> c = CHR '']'' \<and> t = r \<and> vs = [v])"
      unfolding parse_elems_Suc by blast
    from V(1) [OF v] have r1: "length r1 < length s" .
    from c have t: "length t < length r1" by (rule skip_ws_Cons)
    from rest show ?thesis
    proof
      assume "c = CHR '','' \<and> (\<exists>vs'. parse_elems n t = Some (vs', r) \<and> vs = v # vs')"
      then obtain vs' where comma: "c = CHR '',''" and
        e: "parse_elems n t = Some (vs', r)" and vs: "vs = v # vs'"
        by blast
      from E(1) [OF e] have r: "length r + 2 \<le> length t" .
      have "parse_elems m s = Some (vs, r)" if b: "2 * (length s - length r) \<le> m + 2" for m
      proof (cases m)
        case 0
        with b r t r1 show ?thesis by simp
      next
        case (Suc m')
        from b r t r1 Suc have "2 * (length s - length r1) \<le> m' + 1" by simp
        from V(2) [OF v this] have v': "parse_value m' s = Some (v, r1)" .
        from b r t r1 Suc have "2 * (length t - length r) \<le> m' + 2" by simp
        from E(2) [OF e this] have "parse_elems m' t = Some (vs', r)" .
        with v' c comma vs have "parse_elems (Suc m') s = Some (vs, r)"
          unfolding parse_elems_Suc by blast
        then show ?thesis unfolding Suc .
      qed
      with r t r1 show ?thesis by simp
    next
      assume "c \<noteq> CHR '','' \<and> c = CHR '']'' \<and> t = r \<and> vs = [v]"
      then have close: "c \<noteq> CHR '',''" "c = CHR '']''" "t = r" "vs = [v]"
        by simp_all
      have "parse_elems m s = Some (vs, r)" if b: "2 * (length s - length r) \<le> m + 2" for m
      proof (cases m)
        case 0
        with b t r1 close show ?thesis by simp
      next
        case (Suc m')
        from b t r1 close Suc have "2 * (length s - length r1) \<le> m' + 1" by simp
        from V(2) [OF v this] have "parse_value m' s = Some (v, r1)" .
        with c close have "parse_elems (Suc m') s = Some (vs, r)"
          unfolding parse_elems_Suc by blast
        then show ?thesis unfolding Suc .
      qed
      with t r1 close show ?thesis by simp
    qed
  qed
  have for_members: "length r + 2 \<le> length s \<and>
      (\<forall>m. 2 * (length s - length r) \<le> m + 2 \<longrightarrow> parse_members m s = Some (kvs, r))"
    if a: "parse_members (Suc n) s = Some (kvs, r)" for s kvs r
  proof -
    from a obtain t0 k r1 t1 v r3 d t where
      q: "skip_ws s = CHR 0x22 # t0" and key: "parse_chars t0 = Some (k, r1)" and
      colon: "skip_ws r1 = CHR '':'' # t1" and v: "parse_value n t1 = Some (v, r3)" and
      d: "skip_ws r3 = d # t" and
      rest: "(d = CHR '','' \<and> (\<exists>kvs'. parse_members n t = Some (kvs', r) \<and> kvs = (k, v) # kvs')) \<or>
         (d \<noteq> CHR '','' \<and> d = CHR ''}'' \<and> t = r \<and> kvs = [(k, v)])"
      unfolding parse_members_Suc by blast
    from q have t0: "length t0 < length s" by (rule skip_ws_Cons)
    from key have r1: "length r1 < length t0" by (rule parse_chars_shorter)
    from colon have t1: "length t1 < length r1" by (rule skip_ws_Cons)
    from V(1) [OF v] have r3: "length r3 < length t1" .
    from d have t: "length t < length r3" by (rule skip_ws_Cons)
    from rest show ?thesis
    proof
      assume "d = CHR '','' \<and> (\<exists>kvs'. parse_members n t = Some (kvs', r) \<and> kvs = (k, v) # kvs')"
      then obtain kvs' where comma: "d = CHR '',''" and
        e: "parse_members n t = Some (kvs', r)" and kvs: "kvs = (k, v) # kvs'"
        by blast
      from M(1) [OF e] have r: "length r + 2 \<le> length t" .
      have "parse_members m s = Some (kvs, r)" if b: "2 * (length s - length r) \<le> m + 2" for m
      proof (cases m)
        case 0
        with b r t r3 t1 r1 t0 show ?thesis by simp
      next
        case (Suc m')
        from b r t r3 t1 r1 t0 Suc have "2 * (length t1 - length r3) \<le> m' + 1" by simp
        from V(2) [OF v this] have v': "parse_value m' t1 = Some (v, r3)" .
        from b r t r3 t1 r1 t0 Suc have "2 * (length t - length r) \<le> m' + 2" by simp
        from M(2) [OF e this] have "parse_members m' t = Some (kvs', r)" .
        with v' q key colon d comma kvs have "parse_members (Suc m') s = Some (kvs, r)"
          unfolding parse_members_Suc by blast
        then show ?thesis unfolding Suc .
      qed
      with r t r3 t1 r1 t0 show ?thesis by simp
    next
      assume "d \<noteq> CHR '','' \<and> d = CHR ''}'' \<and> t = r \<and> kvs = [(k, v)]"
      then have close: "d \<noteq> CHR '',''" "d = CHR ''}''" "t = r" "kvs = [(k, v)]"
        by simp_all
      have "parse_members m s = Some (kvs, r)" if b: "2 * (length s - length r) \<le> m + 2" for m
      proof (cases m)
        case 0
        with b t r3 t1 r1 t0 close show ?thesis by simp
      next
        case (Suc m')
        from b t r3 t1 r1 t0 close Suc have "2 * (length t1 - length r3) \<le> m' + 1" by simp
        from V(2) [OF v this] have "parse_value m' t1 = Some (v, r3)" .
        with q key colon d close have "parse_members (Suc m') s = Some (kvs, r)"
          unfolding parse_members_Suc by blast
        then show ?thesis unfolding Suc .
      qed
      with t r3 t1 r1 t0 close show ?thesis by simp
    qed
  qed
  from for_value for_elems for_members show ?case by blast
qed

text \<open>
  Hence the fuel that \<open>JSON_parse\<close> starts with is enough: whatever any amount of fuel
  can parse, \<open>JSON_parse\<close> parses.
\<close>

lemma JSON_parse_fuel_enough:
  assumes "parse_value n s = Some (v, r)"
  shows "parse_value (2 * length s + 2) s = Some (v, r)"
proof -
  from fuel_by_consumption [of n] assms
  have "\<forall>m. 2 * (length s - length r) \<le> m + 1 \<longrightarrow> parse_value m s = Some (v, r)"
    by blast
  then have "2 * (length s - length r) \<le> (2 * length s + 2) + 1 \<longrightarrow>
      parse_value (2 * length s + 2) s = Some (v, r)"
    by (rule spec)
  moreover have "2 * (length s - length r) \<le> (2 * length s + 2) + 1"
    by simp
  ultimately show ?thesis by (rule mp)
qed

lemma JSON_parse_complete:
  assumes "parse_value n s = Some (v, r)" and "skip_ws r = []"
  shows "JSON_parse s = Some v"
proof -
  from assms(1) have "parse_value (2 * length s + 2) s = Some (v, r)"
    by (rule JSON_parse_fuel_enough)
  with assms(2) show ?thesis
    unfolding JSON_parse_def by (simp del: parse_value.simps)
qed

section \<open>Properties of the retry loop\<close>

lemma failed_attempts_step:
  "i < k \<Longrightarrow>
   failed_attempts i k = Invoke i # Wait (1000 * 2 ^ (i - 1)) # failed_attempts (Suc i) k"
  by (simp add: failed_attempts_def upt_conv_Cons)

lemma failed_attempts_empty: "failed_attempts k k = []"
  by (simp add: failed_attempts_def)

lemma invocations_failed_attempts:
  "i \<le> k \<Longrightarrow> invocations (failed_attempts i k @ [Invoke k]) = [i..<Suc k]"
proof (induction "k - i" arbitrary: i)
  case 0
  then show ?case by (simp add: failed_attempts_empty)
next
  case (Suc d)
  then have "i < k" by simp
  with Suc show ?case by (simp add: failed_attempts_step upt_conv_Cons)
qed

lemma waits_failed_attempts:
  "waits (failed_attempts i k @ [Invoke k]) = map (\<lambda>a. 1000 * 2 ^ (a - 1)) [i..<k]"
proof (induction "k - i" arbitrary: i)
  case 0
  then show ?case by (simp add: failed_attempts_def)
next
  case (Suc d)
  then have "i < k" by simp
  with Suc show ?case by (simp add: failed_attempts_step upt_conv_Cons)
qed

text \<open>
  A success at attempt \<open>k\<close> within the limit, after failures at \<open>i, ..., k - 1\<close>, ends
  the loop there.
\<close>

lemma retry_loop_succeeds:
  assumes "i \<le> k" "int k \<le> limit"
    and "\<And>a. i \<le> a \<Longrightarrow> a < k \<Longrightarrow> internal a = Inl (err a)"
    and "internal k = Inr r"
  shows "retry_loop pn internal limit i le = (Inr r, failed_attempts i k @ [Invoke k])"
  using assms
proof (induction "k - i" arbitrary: i le)
  case 0
  then have "i = k" by simp
  with 0 show ?case
    by (subst retry_loop.simps) (simp add: failed_attempts_empty)
next
  case (Suc d)
  then have lt: "i < k" by simp
  then have "internal i = Inl (err i)" using Suc.prems by simp
  moreover have "retry_loop pn internal limit (Suc i) (Some (err i)) =
      (Inr r, failed_attempts (Suc i) k @ [Invoke k])"
    using Suc lt by (intro Suc.hyps(1)) auto
  ultimately show ?case using lt Suc.prems(2)
    by (subst retry_loop.simps) (simp add: failed_attempts_step)
qed

text \<open>Failures at every attempt \<open>i, ..., m\<close> end the loop with the error of attempt \<open>m\<close>.\<close>

lemma retry_loop_exhausts:
  assumes "i \<le> m" "limit = int m"
    and "\<And>a. i \<le> a \<Longrightarrow> a \<le> m \<Longrightarrow> internal a = Inl (err a)"
  shows "retry_loop pn internal limit i le = (Inl (err m), failed_attempts i m @ [Invoke m])"
  using assms
proof (induction "m - i" arbitrary: i le)
  case 0
  then have "i = m" by simp
  with 0 show ?case
    by (subst retry_loop.simps) (simp add: failed_attempts_empty)
next
  case (Suc d)
  then have lt: "i < m" by simp
  then have "internal i = Inl (err i)" using Suc.prems by simp
  moreover have "retry_loop pn internal limit (Suc i) (Some (err i)) =
      (Inl (err m), failed_attempts (Suc i) m @ [Invoke m])"
    using Suc lt by (intro Suc.hyps(1)) auto
  ultimately show ?case using lt Suc.prems(2)
    by (subst retry_loop.simps) (simp add: failed_attempts_step)
qed

lemma limit_of_maxRetries:
  "1 \<le> m \<Longrightarrow> maxRetries (mergeOptions config options) = Some (int m) \<Longrightarrow>
   num_or (maxRetries (mergeOptions config options)) 1 = int m"
  by (simp add: num_or_def)

text \<open>
  Claim C2. Let \<open>maxRetries\<close> of the merged options (the caller's value, or else the
  provider's default) be \<open>m \<ge> 1\<close>, and let the pre-flight check pass. If the first
  \<open>k - 1\<close> invocations of the provider's internal evaluation throw and the \<open>k\<close>-th
  returns \<open>r\<close>, with \<open>k \<le> m\<close>, the runner returns \<open>r\<close>; it has invoked the provider
  exactly at the attempts \<open>1, ..., k\<close> and has waited \<open>k - 1\<close> times, for
  \<open>1000 * 2 ^ (attempt - 1)\<close> milliseconds after each failed attempt (nothing before
  attempt 1). If every invocation throws, the runner invokes the provider exactly at the
  attempts \<open>1, ..., m\<close> and throws the error of the last one, unchanged.
\<close>

theorem C2_retry_with_backoff:
  fixes internal :: "nat \<Rightarrow> string \<Rightarrow> string \<Rightarrow> EvaluateOptions \<Rightarrow> error + 'r"
  assumes "1 \<le> m" and "maxRetries (mergeOptions config options) = Some (int m)"
    and "inBrowser \<or> fileExists screenshotPath"
  shows
    "(1 \<le> k \<and> k \<le> m \<and>
      (\<forall>a. 1 \<le> a \<and> a < k \<longrightarrow>
         internal a screenshotPath specification (mergeOptions config options) = Inl (err a)) \<and>
      internal k screenshotPath specification (mergeOptions config options) = Inr r
      \<longrightarrow>
        evaluateScreenshot inBrowser fileExists providerName config internal
          screenshotPath specification options
          = (Inr r, failed_attempts 1 k @ [Invoke k]) \<and>
        invocations (failed_attempts 1 k @ [Invoke k]) = [1..<Suc k] \<and>
        length (invocations (failed_attempts 1 k @ [Invoke k])) = k \<and>
        waits (failed_attempts 1 k @ [Invoke k]) = map (\<lambda>a. 1000 * 2 ^ (a - 1)) [1..<k] \<and>
        length (waits (failed_attempts 1 k @ [Invoke k])) = k - 1)
     \<and>
     ((\<forall>a. 1 \<le> a \<and> a \<le> m \<longrightarrow>
         internal a screenshotPath specification (mergeOptions config options) = Inl (err a))
      \<longrightarrow>
        evaluateScreenshot inBrowser fileExists providerName config internal
          screenshotPath specification options
          = (Inl (err m), failed_attempts 1 m @ [Invoke m]) \<and>
        invocations (failed_attempts 1 m @ [Invoke m]) = [1..<Suc m] \<and>
        length (invocations (failed_attempts 1 m @ [Invoke m])) = m)"
proof (intro conjI impI)
  let ?f = "\<lambda>a. internal a screenshotPath specification (mergeOptions config options)"
  have limit: "num_or (maxRetries (mergeOptions config options)) 1 = int m"
    using assms(1,2) by (rule limit_of_maxRetries)
  have unfold: "evaluateScreenshot inBrowser fileExists providerName config internal
          screenshotPath specification options = retry_loop providerName ?f (int m) 1 None"
    using assms(3) limit by (auto simp: evaluateScreenshot_def Let_def)
  {
    assume h: "1 \<le> k \<and> k \<le> m \<and> (\<forall>a. 1 \<le> a \<and> a < k \<longrightarrow> ?f a = Inl (err a)) \<and> ?f k = Inr r"
    then have "retry_loop providerName ?f (int m) 1 None = (Inr r, failed_attempts 1 k @ [Invoke k])"
      by (intro retry_loop_succeeds[where err = err]) auto
    with unfold show "evaluateScreenshot inBrowser fileExists providerName config internal
          screenshotPath specification options = (Inr r, failed_attempts 1 k @ [Invoke k])"
      by simp
    from h show "invocations (failed_attempts 1 k @ [Invoke k]) = [1..<Suc k]"
      by (simp add: invocations_failed_attempts)
    from h show "length (invocations (failed_attempts 1 k @ [Invoke k])) = k"
      by (simp add: invocations_failed_attempts)
    show "waits (failed_attempts 1 k @ [Invoke k]) = map (\<lambda>a. 1000 * 2 ^ (a - 1)) [1..<k]"
      by (rule waits_failed_attempts)
    show "length (waits (failed_attempts 1 k @ [Invoke k])) = k - 1"
      by (simp add: waits_failed_attempts)
  }
  {
    assume h: "\<forall>a. 1 \<le> a \<and> a \<le> m \<longrightarrow> ?f a = Inl (err a)"
    then have "retry_loop providerName ?f (int m) 1 None =
        (Inl (err m), failed_attempts 1 m @ [Invoke m])"
      using assms(1) by (intro retry_loop_exhausts) auto
    with unfold show "evaluateScreenshot inBrowser fileExists providerName config internal
          screenshotPath specification options = (Inl (err m), failed_attempts 1 m @ [Invoke m])"
      by simp
    from assms(1) show "invocations (failed_attempts 1 m @ [Invoke m]) = [1..<Suc m]"
      by (simp add: invocations_failed_attempts)
    from assms(1) show "length (invocations (failed_attempts 1 m @ [Invoke m])) = m"
      by (simp add: invocations_failed_attempts)
  }
qed

text \<open>
  An instance: with \<open>maxRetries = 4\<close>, a provider that throws twice and then answers is
  invoked three times, with waits of 1000 and 2000 milliseconds; with \<open>maxRetries = 3\<close>, a
  provider that always throws is invoked three times and its third error is thrown.
\<close>

theorem C2_retry_with_backoff_witness:
  "evaluateScreenshot True (\<lambda>_. False) ''OpenAI'' no_config
     (\<lambda>a _ _ _. if a < 3 then Inl (Error (show_nat a)) else Inr ''answer'')
     ''shot.png'' ''a blue button''
     \<lparr>confidenceThreshold = None, includeRawResponse = None, maxRetries = Some 4,
      modelParameters = None\<rparr>
   = (Inr ''answer'', [Invoke 1, Wait 1000, Invoke 2, Wait 2000, Invoke 3])
   \<and>
   evaluateScreenshot True (\<lambda>_. False) ''OpenAI'' no_config
     (\<lambda>a _ _ _. (Inl (Error (show_nat a)) :: error + string))
     ''shot.png'' ''a blue button''
     \<lparr>confidenceThreshold = None, includeRawResponse = None, maxRetries = Some 3,
      modelParameters = None\<rparr>
   = (Inl (Error ''3''), [Invoke 1, Wait 1000, Invoke 2, Wait 2000, Invoke 3])"
proof
  have trace: "failed_attempts 1 3 = [Invoke 1, Wait 1000, Invoke 2, Wait 2000]"
    by (simp add: failed_attempts_def upt_conv_Cons)
  show "evaluateScreenshot True (\<lambda>_. False) ''OpenAI'' no_config
     (\<lambda>a _ _ _. if a < 3 then Inl (Error (show_nat a)) else Inr ''answer'')
     ''shot.png'' ''a blue button''
     \<lparr>confidenceThreshold = None, includeRawResponse = None, maxRetries = Some 4,
      modelParameters = None\<rparr>
   = (Inr ''answer'', [Invoke 1, Wait 1000, Invoke 2, Wait 2000, Invoke 3])"
    using C2_retry_with_backoff [of 4 no_config
        "\<lparr>confidenceThreshold = None, includeRawResponse = None, maxRetries = Some 4,
          modelParameters = None\<rparr>"
        True "\<lambda>_. False" "''shot.png''" 3
        "\<lambda>a _ _ _. if a < 3 then Inl (Error (show_nat a)) else Inr ''answer''"
        "''a blue button''" "\<lambda>a. Error (show_nat a)" "''answer''" "''OpenAI''"]
    unfolding trace by (simp add: mergeOptions_def)
  show "evaluateScreenshot True (\<lambda>_. False) ''OpenAI'' no_config
     (\<lambda>a _ _ _. (Inl (Error (show_nat a)) :: error + string))
     ''shot.png'' ''a blue button''
     \<lparr>confidenceThreshold = None, includeRawResponse = None, maxRetries = Some 3,
      modelParameters = None\<rparr>
   = (Inl (Error ''3''), [Invoke 1, Wait 1000, Invoke 2, Wait 2000, Invoke 3])"
    using C2_retry_with_backoff [of 3 no_config
        "\<lparr>confidenceThreshold = None, includeRawResponse = None, maxRetries = Some 3,
          modelParameters = None\<rparr>"
        True "\<lambda>_. False" "''shot.png''" 3
        "\<lambda>a _ _ _. (Inl (Error (show_nat a)) :: error + string)"
        "''a blue button''" "\<lambda>a. Error (show_nat a)" "''answer''" "''OpenAI''"]
    unfolding trace by (simp add: mergeOptions_def)
qed

text \<open>
  Claim C5. In a standalone Node context (\<open>isBrowser\<close> false), an evaluation of a path
  that does not exist throws the missing-screenshot error with an empty trace: the
  provider's internal evaluation, the only place a request is sent from, is never invoked,
  the retry loop is not entered and nothing is waited for. This holds for the base runner
  with any internal evaluation and for both provider classes.
\<close>

theorem C5_missing_artifact_not_retried:
  assumes "\<not> isBrowser nd" and "\<not> pathExists nd screenshotPath"
  shows
    "evaluateScreenshot (isBrowser nd) (pathExists nd) providerName config internal
       screenshotPath specification options
     = (Inl (Error (''Screenshot does not exist at path: '' @ screenshotPath)), [])
     \<and> provider_evaluateScreenshot nd p screenshotPath specification options
     = (Inl (Error (''Screenshot does not exist at path: '' @ screenshotPath)), [])"
  using assms by (cases p) (simp_all add: evaluateScreenshot_def)

theorem C5_missing_artifact_not_retried_witness:
  "provider_evaluateScreenshot
     \<lparr>isBrowser = False, pathExists = (\<lambda>_. False), existsSync = (\<lambda>_. False),
      JSON_stringify = (\<lambda>_. []),
      world_at = (\<lambda>_. \<lparr>readFile = (\<lambda>_. Inl ''ENOENT''), envApiKey = Some ''key'',
                         fetch = (\<lambda>_. Inl (TypeError ''fetch failed''))\<rparr>)\<rparr>
     (OpenAIProvider no_config) ''missing.png'' ''a blue button''
     \<lparr>confidenceThreshold = None, includeRawResponse = None, maxRetries = Some 3,
      modelParameters = None\<rparr>
   = (Inl (Error ''Screenshot does not exist at path: missing.png''), [])"
  using C5_missing_artifact_not_retried [of
      "\<lparr>isBrowser = False, pathExists = (\<lambda>_. False), existsSync = (\<lambda>_. False),
        JSON_stringify = (\<lambda>_. []),
        world_at = (\<lambda>_. \<lparr>readFile = (\<lambda>_. Inl ''ENOENT''), envApiKey = Some ''key'',
                           fetch = (\<lambda>_. Inl (TypeError ''fetch failed''))\<rparr>)\<rparr>"
      "''missing.png''" "''OpenAI''" no_config
      "\<lambda>_. openai_evaluateScreenshotInternal (\<lambda>_. []) no_config
              \<lparr>readFile = (\<lambda>_. Inl ''ENOENT''), envApiKey = Some ''key'',
               fetch = (\<lambda>_. Inl (TypeError ''fetch failed''))\<rparr>"
      "''a blue button''"
      "\<lparr>confidenceThreshold = None, includeRawResponse = None, maxRetries = Some 3,
        modelParameters = None\<rparr>"
      "OpenAIProvider no_config"]
  by simp

section \<open>The decision gate\<close>

lemma sublist_join: "x \<in> set xs \<Longrightarrow> sublist x (join sep xs)"
proof (induction sep xs rule: join.induct)
  case (1 sep)
  then show ?case by simp
next
  case (2 sep y)
  then show ?case by simp
next
  case (3 sep y z zs)
  show ?case
  proof (cases "x = y")
    case True
    then show ?thesis by simp
  next
    case False
    with 3 have "sublist x (join sep (z # zs))" by simp
    then have "sublist x ((y @ sep) @ join sep (z # zs))"
      by (metis sublist_append)
    then show ?thesis by simp
  qed
qed

lemma part_in_message:
  assumes "sublist part line" and "line \<noteq> []"
    and "line \<in> set (failure_lines fmt specification result threshold actualScreenshotPath)"
  shows "sublist part (failureMessage fmt specification result threshold actualScreenshotPath)"
proof -
  have "sublist line (failureMessage fmt specification result threshold actualScreenshotPath)"
    using assms(2,3) by (simp add: failureMessage_def sublist_join)
  with assms(1) show ?thesis by (rule sublist_order.order_trans)
qed

lemma message_has_specification:
  "sublist specification (failureMessage fmt specification result threshold path)"
proof (rule part_in_message)
  show "sublist specification (''Specification: '' @ [CHR 0x22] @ specification @ [CHR 0x22])"
    by (metis append_assoc sublist_appendI)
  show "''Specification: '' @ [CHR 0x22] @ specification @ [CHR 0x22] \<noteq> []" by simp
  show "''Specification: '' @ [CHR 0x22] @ specification @ [CHR 0x22]
        \<in> set (failure_lines fmt specification result threshold path)"
    by (simp add: failure_lines_def)
qed

lemma message_has_confidence:
  "sublist (toFixed2 fmt (confidence result)) (failureMessage fmt specification result threshold path)"
proof (rule part_in_message)
  let ?line = "''Confidence: '' @ toFixed2 fmt (confidence result) @ '' (threshold: '' @
        (case threshold of None \<Rightarrow> ''undefined'' | Some t \<Rightarrow> numToString fmt t) @ '')''"
  show "sublist (toFixed2 fmt (confidence result)) ?line" by (rule sublist_appendI)
  show "?line \<noteq> []" by simp
  show "?line \<in> set (failure_lines fmt specification result threshold path)"
    by (simp add: failure_lines_def)
qed

lemma message_has_threshold:
  "sublist (numToString fmt t) (failureMessage fmt specification result (Some t) path)"
proof (rule part_in_message)
  let ?line = "''Confidence: '' @ toFixed2 fmt (confidence result) @ '' (threshold: '' @
        numToString fmt t @ '')''"
  have "?line = (''Confidence: '' @ toFixed2 fmt (confidence result) @ '' (threshold: '') @
        numToString fmt t @ '')''" by simp
  then show "sublist (numToString fmt t) ?line" by (metis sublist_appendI)
  show "?line \<noteq> []" by simp
  show "?line \<in> set (failure_lines fmt specification result (Some t) path)"
    by (simp add: failure_lines_def)
qed

lemma message_has_reasoning:
  "sublist (reasoning result) (failureMessage fmt specification result threshold path)"
proof (rule part_in_message)
  let ?line = "''Reasoning: '' @
        (if reasoning result \<noteq> [] then reasoning result else ''No reasoning provided'')"
  show "sublist (reasoning result) ?line"
  proof (cases "reasoning result = []")
    case True
    then show ?thesis by simp
  next
    case False
    then have "?line = ''Reasoning: '' @ reasoning result" by simp
    then show ?thesis by (simp only: sublist_append_leftI)
  qed
  show "?line \<noteq> []" by simp
  show "?line \<in> set (failure_lines fmt specification result threshold path)"
    by (simp add: failure_lines_def)
qed

lemma message_has_path:
  "sublist path (failureMessage fmt specification result threshold path)"
proof (rule part_in_message)
  show "sublist path (''Screenshot path: '' @ path)" by (rule sublist_append_leftI)
  show "''Screenshot path: '' @ path \<noteq> []" by simp
  show "''Screenshot path: '' @ path \<in> set (failure_lines fmt specification result threshold path)"
    by (simp add: failure_lines_def)
qed

lemma message_has_failReason:
  assumes "failReason result = Some f"
  shows "sublist f (failureMessage fmt specification result threshold path)"
proof (cases "f = []")
  case True
  then show ?thesis by simp
next
  case False
  show ?thesis
  proof (rule part_in_message)
    show "sublist f (''Fail reason: '' @ f)" by (rule sublist_append_leftI)
    show "''Fail reason: '' @ f \<noteq> []" by simp
    show "''Fail reason: '' @ f \<in> set (failure_lines fmt specification result threshold path)"
      using assms False by (simp add: failure_lines_def str_truthy_def)
  qed
qed

lemma message_has_suggestions:
  assumes "suggestions result = Some ss"
  shows "sublist (join '', '' ss) (failureMessage fmt specification result threshold path)"
proof (cases "ss = []")
  case True
  then show ?thesis by simp
next
  case False
  show ?thesis
  proof (rule part_in_message)
    show "sublist (join '', '' ss) (''Suggestions: '' @ join '', '' ss)" by (rule sublist_append_leftI)
    show "''Suggestions: '' @ join '', '' ss \<noteq> []" by simp
    show "''Suggestions: '' @ join '', '' ss \<in> set (failure_lines fmt specification result threshold path)"
      using assms False by (simp add: failure_lines_def)
  qed
qed

text \<open>
  Claim C1. For every result \<open>r\<close> and threshold \<open>t\<close> the gate passes, returning the
  subject it was given, exactly when \<open>r.verdict\<close> is \<open>yes\<close> and \<open>r.confidence \<ge> t\<close>.
  In every other case it throws an error whose message contains the specification, the
  confidence (as \<^verbatim>\<open>toFixed(2)\<close> prints it) and the threshold, the reasoning, the
  \<open>failReason\<close> when there is one, the suggestions joined by \<open>", "\<close> when there are
  some, and the screenshot path. The \<^verbatim>\<open>vibeCheck\<close> command applies this gate, at the
  merged threshold, to the result the task delivers.
\<close>

theorem C1_decision_gate:
  "(decision_gate fmt subject specification (Some t) path r = Inr subject
      \<longleftrightarrow> verdict r = ''yes'' \<and> confidence r \<ge> t) \<and>
   (\<not> (verdict r = ''yes'' \<and> confidence r \<ge> t) \<longrightarrow>
      (\<exists>msg. decision_gate fmt subject specification (Some t) path r = Inl (Error msg) \<and>
         sublist specification msg \<and>
         sublist (toFixed2 fmt (confidence r)) msg \<and>
         sublist (numToString fmt t) msg \<and>
         sublist (reasoning r) msg \<and>
         (\<forall>f. failReason r = Some f \<longrightarrow> sublist f msg) \<and>
         (\<forall>ss. suggestions r = Some ss \<longrightarrow> sublist (join '', '' ss) msg) \<and>
         sublist path msg)) \<and>
   (elements \<noteq> [] \<and>
    llmBridge path specification (evaluate_options (mergedOptions runtimeConfig options))
      (provider (mergedOptions runtimeConfig options)) = Inr r \<and>
    confidenceThreshold (mergedOptions runtimeConfig options) = Some t \<longrightarrow>
      vibeCheck fmt runtimeConfig llmBridge path elements specification options
        = decision_gate fmt elements specification (Some t) path r)"
proof (intro conjI impI)
  show "decision_gate fmt subject specification (Some t) path r = Inr subject
      \<longleftrightarrow> verdict r = ''yes'' \<and> confidence r \<ge> t"
    by (simp add: decision_gate_def passes_def)
next
  assume "\<not> (verdict r = ''yes'' \<and> confidence r \<ge> t)"
  then have "decision_gate fmt subject specification (Some t) path r
      = Inl (Error (failureMessage fmt specification r (Some t) path))"
    by (simp add: decision_gate_def passes_def)
  then show "\<exists>msg. decision_gate fmt subject specification (Some t) path r = Inl (Error msg) \<and>
         sublist specification msg \<and>
         sublist (toFixed2 fmt (confidence r)) msg \<and>
         sublist (numToString fmt t) msg \<and>
         sublist (reasoning r) msg \<and>
         (\<forall>f. failReason r = Some f \<longrightarrow> sublist f msg) \<and>
         (\<forall>ss. suggestions r = Some ss \<longrightarrow> sublist (join '', '' ss) msg) \<and>
         sublist path msg"
    by (intro exI [of _ "failureMessage fmt specification r (Some t) path"] conjI allI impI)
      (simp_all add: message_has_specification message_has_confidence message_has_threshold
        message_has_reasoning message_has_failReason message_has_suggestions message_has_path)
next
  assume "elements \<noteq> [] \<and>
    llmBridge path specification (evaluate_options (mergedOptions runtimeConfig options))
      (provider (mergedOptions runtimeConfig options)) = Inr r \<and>
    confidenceThreshold (mergedOptions runtimeConfig options) = Some t"
  then show "vibeCheck fmt runtimeConfig llmBridge path elements specification options
        = decision_gate fmt elements specification (Some t) path r"
    by (simp add: vibeCheck_def Let_def)
qed

text \<open>
  At threshold 0.8: a \<open>yes\<close> with confidence 0.9 passes and returns the subject; a
  \<open>no\<close> with confidence 0.9 fails with a message that has all the parts; the command
  with the default configuration and no options applies the gate at 0.8.
\<close>

theorem C1_decision_gate_witness:
  "decision_gate example_format [''#submit''] ''A blue button'' (Some (8 / 10)) ''shot.png''
     (result_yes (9 / 10)) = Inr [''#submit''] \<and>
   (\<exists>msg. decision_gate example_format [''#submit''] ''A blue button'' (Some (8 / 10))
            ''shot.png'' result_no = Inl (Error msg) \<and>
          sublist ''A blue button'' msg \<and>
          sublist ''0.90'' msg \<and>
          sublist ''0.8'' msg \<and>
          sublist ''The button is red.'' msg \<and>
          sublist ''wrong colour'' msg \<and>
          sublist ''make it blue, add a label'' msg \<and>
          sublist ''shot.png'' msg) \<and>
   vibeCheck example_format (defaultConfig Map.empty) (bridge_delivering (result_yes (9 / 10)))
     ''shot.png'' [''#submit''] ''A blue button'' no_options = Inr [''#submit'']"
proof (intro conjI)
  note claim = C1_decision_gate
  show pass: "decision_gate example_format [''#submit''] ''A blue button'' (Some (8 / 10))
      ''shot.png'' (result_yes (9 / 10)) = Inr [''#submit'']"
    using claim [THEN conjunct1, of example_format "[''#submit'']" "''A blue button''" "8 / 10"
        "''shot.png''" "result_yes (9 / 10)"]
    by (simp add: result_yes_def)
  have "\<not> (verdict result_no = ''yes'' \<and> confidence result_no \<ge> 8 / 10)"
    by (simp add: result_no_def)
  from claim [THEN conjunct2, THEN conjunct1, THEN mp, OF this]
  obtain msg where
    m: "decision_gate example_format [''#submit''] ''A blue button'' (Some (8 / 10))
          ''shot.png'' result_no = Inl (Error msg) \<and>
        sublist ''A blue button'' msg \<and>
        sublist (toFixed2 example_format (confidence result_no)) msg \<and>
        sublist (numToString example_format (8 / 10)) msg \<and>
        sublist (reasoning result_no) msg \<and>
        (\<forall>f. failReason result_no = Some f \<longrightarrow> sublist f msg) \<and>
        (\<forall>ss. suggestions result_no = Some ss \<longrightarrow> sublist (join '', '' ss) msg) \<and>
        sublist ''shot.png'' msg" ..
  have printed: "toFixed2 example_format (confidence result_no) = ''0.90''"
    "numToString example_format (8 / 10) = ''0.8''"
    by code_simp+
  have parts: "reasoning result_no = ''The button is red.''"
    "failReason result_no = Some ''wrong colour''"
    "suggestions result_no = Some [''make it blue'', ''add a label'']"
    by (simp_all add: result_no_def)
  have joined: "join '', '' [''make it blue'', ''add a label''] = ''make it blue, add a label''"
    by simp
  note m1 = m [THEN conjunct1]
    and m2 = m [THEN conjunct2, THEN conjunct1]
    and m3 = m [THEN conjunct2, THEN conjunct2, THEN conjunct1, unfolded printed]
    and m4 = m [THEN conjunct2, THEN conjunct2, THEN conjunct2, THEN conjunct1,
        unfolded printed]
    and m5 = m [THEN conjunct2, THEN conjunct2, THEN conjunct2, THEN conjunct2,
        THEN conjunct1, unfolded parts]
    and m6 = m [THEN conjunct2, THEN conjunct2, THEN conjunct2, THEN conjunct2,
        THEN conjunct2, THEN conjunct1, THEN spec, THEN mp, OF parts(2)]
    and m7 = m [THEN conjunct2, THEN conjunct2, THEN conjunct2, THEN conjunct2,
        THEN conjunct2, THEN conjunct2, THEN conjunct1, THEN spec, THEN mp, OF parts(3),
        unfolded joined]
    and m8 = m [THEN conjunct2, THEN conjunct2, THEN conjunct2, THEN conjunct2,
        THEN conjunct2, THEN conjunct2, THEN conjunct2]
  show "\<exists>msg. decision_gate example_format [''#submit''] ''A blue button''
            (Some (8 / 10)) ''shot.png'' result_no = Inl (Error msg) \<and>
          sublist ''A blue button'' msg \<and>
          sublist ''0.90'' msg \<and>
          sublist ''0.8'' msg \<and>
          sublist ''The button is red.'' msg \<and>
          sublist ''wrong colour'' msg \<and>
          sublist ''make it blue, add a label'' msg \<and>
          sublist ''shot.png'' msg"
    by (rule exI [of _ msg]) (intro conjI m1 m2 m3 m4 m5 m6 m7 m8)
  have "vibeCheck example_format (defaultConfig Map.empty)
      (bridge_delivering (result_yes (9 / 10))) ''shot.png'' [''#submit''] ''A blue button''
      no_options
    = decision_gate example_format [''#submit''] ''A blue button'' (Some (8 / 10))
        ''shot.png'' (result_yes (9 / 10))"
    by (rule claim [THEN conjunct2, THEN conjunct2, THEN mp])
      (simp add: bridge_delivering_def mergedOptions_def defaultConfig_def no_options_def
        pick_def)
  with pass show "vibeCheck example_format (defaultConfig Map.empty)
      (bridge_delivering (result_yes (9 / 10))) ''shot.png'' [''#submit''] ''A blue button''
      no_options = Inr [''#submit'']"
    by simp
qed

section \<open>Reading the model's reply\<close>

lemma internal_on_reply:
  "openai_reply_body config w screenshotPath specification options = Some data \<Longrightarrow>
   openai_evaluateScreenshotInternal stringify config w screenshotPath specification options
     = parse_reply stringify (openai_content stringify data) options
         (RawText (openai_content stringify data))"
  "anthropic_reply_body config w screenshotPath specification options = Some data \<Longrightarrow>
   anthropic_evaluateScreenshotInternal stringify config w screenshotPath specification options
     = parse_reply stringify (anthropic_content data) options (RawData data)"
  by (auto simp: openai_reply_body_def anthropic_reply_body_def reply_body_def
        openai_evaluateScreenshotInternal_def anthropic_evaluateScreenshotInternal_def
      split: sum.splits if_splits)

text \<open>The match runs from the first opening brace to the last closing brace.\<close>

lemma jsonMatch_first_to_last:
  assumes "CHR ''{'' \<notin> set before" and "CHR ''}'' \<notin> set after"
  shows "jsonMatch (before @ CHR ''{'' # inner @ CHR ''}'' # after)
         = Some (CHR ''{'' # inner @ [CHR ''}''])"
proof -
  have "dropWhile (\<lambda>x. x \<noteq> CHR ''{'') (before @ CHR ''{'' # inner @ CHR ''}'' # after)
        = CHR ''{'' # inner @ CHR ''}'' # after"
    using assms(1) by (auto simp: dropWhile_append3)
  moreover have "dropWhile (\<lambda>x. x \<noteq> CHR ''}'') (rev after @ CHR ''}'' # rev inner)
        = CHR ''}'' # rev inner"
    using assms(2) by (auto simp: dropWhile_append3)
  ultimately show ?thesis
    by (simp add: jsonMatch_def upto_last_def)
qed

lemma parse_candidate_first_to_last:
  "CHR ''{'' \<notin> set before \<Longrightarrow> CHR ''}'' \<notin> set after \<Longrightarrow>
   parse_candidate (before @ CHR ''{'' # inner @ CHR ''}'' # after) = CHR ''{'' # inner @ [CHR ''}'']"
  by (simp add: parse_candidate_def jsonMatch_first_to_last)

lemma JSON_parse_empty: "JSON_parse [] = None"
  by (simp add: JSON_parse_def skip_ws_def)

lemma parsed_reply_not_empty:
  "JSON_parse (parse_candidate content) = Some j \<Longrightarrow> content \<noteq> []"
  by (auto simp: parse_candidate_def jsonMatch_def JSON_parse_empty)

lemma parse_reply_fallback:
  "JSON_parse (parse_candidate content) = None \<Longrightarrow>
   parse_reply stringify content options r =
     Inr \<lparr>confidence = JNum 0,
          reasoning = JStr (''Error parsing response: '' @ content),
          verdict = JStr ''no'',
          failReason = None, suggestions = None,
          rawResponse = raw_if options r\<rparr>"
  by (simp add: parse_reply_def resultJson_of_def or_default_def)

lemma parse_reply_object:
  "JSON_parse (parse_candidate content) = Some (JObj members) \<Longrightarrow>
   ''confidence'' \<in> fst ` set members \<Longrightarrow>
   parse_reply stringify content options r =
     Inr \<lparr>confidence = the (get_prop (JObj members) ''confidence''),
          reasoning = or_default (get_prop (JObj members) ''reasoning'') ''No reasoning provided'',
          verdict = or_default (get_prop (JObj members) ''verdict'') ''no'',
          failReason = None, suggestions = None,
          rawResponse = raw_if options r\<rparr>"
  by (simp add: parse_reply_def resultJson_of_def)

lemma parse_reply_invalid:
  "JSON_parse (parse_candidate content) = Some j \<Longrightarrow>
   has_prop ''confidence'' j = Inr False \<Longrightarrow>
   parse_reply stringify content options r =
     Inr \<lparr>confidence = JNum 0,
          reasoning = JStr (''Invalid response format: '' @ stringify j),
          verdict = JStr ''no'',
          failReason = None, suggestions = None,
          rawResponse = raw_if options r\<rparr>"
  by (simp add: parse_reply_def resultJson_of_def)

lemma parse_reply_raw:
  "parse_reply stringify content options r = Inr result \<Longrightarrow>
   rawResponse result = raw_if options r"
  by (auto simp: parse_reply_def Let_def split: sum.splits bool.splits)

lemma internal_returns:
  "openai_evaluateScreenshotInternal stringify config w screenshotPath specification options
     = Inr result \<Longrightarrow>
   \<exists>data. openai_reply_body config w screenshotPath specification options = Some data"
  "anthropic_evaluateScreenshotInternal stringify config w screenshotPath specification options
     = Inr result \<Longrightarrow>
   \<exists>data. anthropic_reply_body config w screenshotPath specification options = Some data"
  by (auto simp: openai_reply_body_def anthropic_reply_body_def reply_body_def
        openai_evaluateScreenshotInternal_def anthropic_evaluateScreenshotInternal_def
      split: sum.splits if_splits)

text \<open>
  Claim C3, as the code has it. The text that is parsed runs from the first \<open>{\<close> of the
  reply to its last \<open>}\<close> (the match is greedy, not balanced). So for a reply that
  consists of prose without \<open>{\<close>, a JSON object, and prose without \<open>}\<close>, the object
  itself is parsed, and its \<open>confidence\<close>, \<open>reasoning\<close> and \<open>verdict\<close> make the result.
  Whenever nothing can be parsed from that text (or from the whole reply, when it has no
  such text), the result is one with confidence 0, verdict \<open>no\<close> and the raw reply in the
  reasoning; nothing is thrown. Both providers read a 2xx reply in this way.
\<close>

theorem C3_json_between_first_and_last_brace:
  "(CHR ''{'' \<notin> set before \<and> CHR ''}'' \<notin> set after \<longrightarrow>
      parse_candidate (before @ CHR ''{'' # inner @ CHR ''}'' # after)
        = CHR ''{'' # inner @ [CHR ''}'']) \<and>
   (CHR ''{'' \<notin> set before \<and> CHR ''}'' \<notin> set after \<and>
    JSON_parse (CHR ''{'' # inner @ [CHR ''}'']) = Some (JObj members) \<and>
    ''confidence'' \<in> fst ` set members \<longrightarrow>
      parse_reply stringify (before @ CHR ''{'' # inner @ CHR ''}'' # after) options r =
        Inr \<lparr>confidence = the (get_prop (JObj members) ''confidence''),
             reasoning = or_default (get_prop (JObj members) ''reasoning'') ''No reasoning provided'',
             verdict = or_default (get_prop (JObj members) ''verdict'') ''no'',
             failReason = None, suggestions = None,
             rawResponse = raw_if options r\<rparr>) \<and>
   (JSON_parse (parse_candidate content) = None \<longrightarrow>
      parse_reply stringify content options r =
        Inr \<lparr>confidence = JNum 0,
             reasoning = JStr (''Error parsing response: '' @ content),
             verdict = JStr ''no'',
             failReason = None, suggestions = None,
             rawResponse = raw_if options r\<rparr>) \<and>
   (openai_reply_body config w screenshotPath specification options = Some data \<longrightarrow>
      openai_evaluateScreenshotInternal stringify config w screenshotPath specification options
        = parse_reply stringify (openai_content stringify data) options
            (RawText (openai_content stringify data))) \<and>
   (anthropic_reply_body config w screenshotPath specification options = Some data \<longrightarrow>
      anthropic_evaluateScreenshotInternal stringify config w screenshotPath specification options
        = parse_reply stringify (anthropic_content data) options (RawData data))"
proof (intro conjI impI)
  assume "CHR ''{'' \<notin> set before \<and> CHR ''}'' \<notin> set after"
  then show "parse_candidate (before @ CHR ''{'' # inner @ CHR ''}'' # after)
        = CHR ''{'' # inner @ [CHR ''}'']"
    by (simp add: parse_candidate_first_to_last)
next
  assume h: "CHR ''{'' \<notin> set before \<and> CHR ''}'' \<notin> set after \<and>
    JSON_parse (CHR ''{'' # inner @ [CHR ''}'']) = Some (JObj members) \<and>
    ''confidence'' \<in> fst ` set members"
  then have "JSON_parse (parse_candidate (before @ CHR ''{'' # inner @ CHR ''}'' # after))
      = Some (JObj members)"
    by (simp add: parse_candidate_first_to_last)
  with h show "parse_reply stringify (before @ CHR ''{'' # inner @ CHR ''}'' # after) options r =
        Inr \<lparr>confidence = the (get_prop (JObj members) ''confidence''),
             reasoning = or_default (get_prop (JObj members) ''reasoning'') ''No reasoning provided'',
             verdict = or_default (get_prop (JObj members) ''verdict'') ''no'',
             failReason = None, suggestions = None,
             rawResponse = raw_if options r\<rparr>"
    by (intro parse_reply_object) simp_all
next
  assume "JSON_parse (parse_candidate content) = None"
  then show "parse_reply stringify content options r =
        Inr \<lparr>confidence = JNum 0,
             reasoning = JStr (''Error parsing response: '' @ content),
             verdict = JStr ''no'',
             failReason = None, suggestions = None,
             rawResponse = raw_if options r\<rparr>"
    by (rule parse_reply_fallback)
next
  assume "openai_reply_body config w screenshotPath specification options = Some data"
  then show "openai_evaluateScreenshotInternal stringify config w screenshotPath specification
        options
      = parse_reply stringify (openai_content stringify data) options
          (RawText (openai_content stringify data))"
    by (rule internal_on_reply)
next
  assume "anthropic_reply_body config w screenshotPath specification options = Some data"
  then show "anthropic_evaluateScreenshotInternal stringify config w screenshotPath specification
        options
      = parse_reply stringify (anthropic_content data) options (RawData data)"
    by (rule internal_on_reply)
qed

text \<open>
  The reply of the specification's example yields verdict \<open>yes\<close> with confidence 0.9, from
  either provider; a reply without any JSON yields the zero-confidence result.
\<close>

theorem C3_json_between_first_and_last_brace_witness:
  \<open>parse_reply example_stringify reply_in_prose options_none (RawText reply_in_prose) =
     Inr \<lparr>confidence = JNum (9 / 10), reasoning = JStr ''ok'', verdict = JStr ''yes'',
          failReason = None, suggestions = None, rawResponse = None\<rparr> \<and>
   parse_reply example_stringify ''I cannot tell.'' options_none (RawText ''I cannot tell.'') =
     Inr \<lparr>confidence = JNum 0, reasoning = JStr ''Error parsing response: I cannot tell.'',
          verdict = JStr ''no'', failReason = None, suggestions = None, rawResponse = None\<rparr> \<and>
   openai_evaluateScreenshotInternal example_stringify no_config
       (world_answering (openai_reply reply_in_prose)) ''shot.png'' ''A blue button'' options_none =
     Inr \<lparr>confidence = JNum (9 / 10), reasoning = JStr ''ok'', verdict = JStr ''yes'',
          failReason = None, suggestions = None, rawResponse = None\<rparr> \<and>
   anthropic_evaluateScreenshotInternal example_stringify no_config
       (world_answering (anthropic_reply reply_in_prose)) ''shot.png'' ''A blue button'' options_none =
     Inr \<lparr>confidence = JNum (9 / 10), reasoning = JStr ''ok'', verdict = JStr ''yes'',
          failReason = None, suggestions = None, rawResponse = None\<rparr>\<close>
proof -
  let ?inner = \<open>''"confidence":0.9,"verdict":"yes","reasoning":"ok"''\<close>
  let ?members = "[(''confidence'', JNum (9 / 10)), (''verdict'', JStr ''yes''),
                   (''reasoning'', JStr ''ok'')]"
  have shape: "reply_in_prose = ''blah '' @ CHR ''{'' # ?inner @ CHR ''}'' # '' blah''"
    by (simp add: reply_in_prose_def)
  have parsed: "JSON_parse (CHR ''{'' # ?inner @ [CHR ''}'']) = Some (JObj ?members)"
    by code_simp
  have unparsed: "JSON_parse (parse_candidate ''I cannot tell.'') = None"
    by code_simp
  have openai_body: "openai_reply_body no_config (world_answering (openai_reply reply_in_prose))
      ''shot.png'' ''A blue button'' options_none = Some (openai_reply reply_in_prose)"
    by (simp add: openai_reply_body_def reply_body_def world_answering_def read_png_def
        http_200_def resolve_key_def str_truthy_def no_config_def)
  have anthropic_body: "anthropic_reply_body no_config
      (world_answering (anthropic_reply reply_in_prose))
      ''shot.png'' ''A blue button'' options_none = Some (anthropic_reply reply_in_prose)"
    by (simp add: anthropic_reply_body_def reply_body_def world_answering_def read_png_def
        http_200_def resolve_key_def str_truthy_def no_config_def)
  have texts: "openai_content example_stringify (openai_reply reply_in_prose) = reply_in_prose"
    "anthropic_content (anthropic_reply reply_in_prose) = reply_in_prose"
    by (simp_all add: openai_content_def anthropic_content_def openai_reply_def
        anthropic_reply_def str_truthy_def reply_in_prose_def)
  have none: "raw_if options_none x = None" for x
    by (simp add: raw_if_def options_none_def)
  have fields: "the (get_prop (JObj ?members) ''confidence'') = JNum (9 / 10)"
    "or_default (get_prop (JObj ?members) ''reasoning'') ''No reasoning provided'' = JStr ''ok''"
    "or_default (get_prop (JObj ?members) ''verdict'') ''no'' = JStr ''yes''"
    by (simp_all add: or_default_def)
  note claim = C3_json_between_first_and_last_brace
  have "parse_reply example_stringify (''blah '' @ CHR ''{'' # ?inner @ CHR ''}'' # '' blah'')
      options_none x =
     Inr \<lparr>confidence = the (get_prop (JObj ?members) ''confidence''),
          reasoning = or_default (get_prop (JObj ?members) ''reasoning'') ''No reasoning provided'',
          verdict = or_default (get_prop (JObj ?members) ''verdict'') ''no'',
          failReason = None, suggestions = None,
          rawResponse = raw_if options_none x\<rparr>" for x
    by (rule claim [THEN conjunct2, THEN conjunct1, THEN mp]) (use parsed in simp)
  then have first: "parse_reply example_stringify reply_in_prose options_none x =
     Inr \<lparr>confidence = JNum (9 / 10), reasoning = JStr ''ok'', verdict = JStr ''yes'',
          failReason = None, suggestions = None, rawResponse = None\<rparr>" for x
    unfolding shape [symmetric] fields none .
  have "parse_reply example_stringify ''I cannot tell.'' options_none
       (RawText ''I cannot tell.'') =
     Inr \<lparr>confidence = JNum 0,
          reasoning = JStr (''Error parsing response: '' @ ''I cannot tell.''),
          verdict = JStr ''no'', failReason = None, suggestions = None,
          rawResponse = raw_if options_none (RawText ''I cannot tell.'')\<rparr>"
    by (rule claim [THEN conjunct2, THEN conjunct2, THEN conjunct1, THEN mp]) (rule unparsed)
  then have second: "parse_reply example_stringify ''I cannot tell.'' options_none
       (RawText ''I cannot tell.'') =
     Inr \<lparr>confidence = JNum 0, reasoning = JStr ''Error parsing response: I cannot tell.'',
          verdict = JStr ''no'', failReason = None, suggestions = None, rawResponse = None\<rparr>"
    unfolding none by simp
  have "openai_evaluateScreenshotInternal example_stringify no_config
       (world_answering (openai_reply reply_in_prose)) ''shot.png'' ''A blue button'' options_none =
     parse_reply example_stringify
       (openai_content example_stringify (openai_reply reply_in_prose)) options_none
       (RawText (openai_content example_stringify (openai_reply reply_in_prose)))"
    by (rule claim [THEN conjunct2, THEN conjunct2, THEN conjunct2, THEN conjunct1, THEN mp])
      (rule openai_body)
  then have third: "openai_evaluateScreenshotInternal example_stringify no_config
       (world_answering (openai_reply reply_in_prose)) ''shot.png'' ''A blue button'' options_none =
     parse_reply example_stringify reply_in_prose options_none (RawText reply_in_prose)"
    unfolding texts .
  have "anthropic_evaluateScreenshotInternal example_stringify no_config
       (world_answering (anthropic_reply reply_in_prose)) ''shot.png'' ''A blue button''
       options_none =
     parse_reply example_stringify (anthropic_content (anthropic_reply reply_in_prose))
       options_none (RawData (anthropic_reply reply_in_prose))"
    by (rule claim [THEN conjunct2, THEN conjunct2, THEN conjunct2, THEN conjunct2, THEN mp])
      (rule anthropic_body)
  then have fourth: "anthropic_evaluateScreenshotInternal example_stringify no_config
       (world_answering (anthropic_reply reply_in_prose)) ''shot.png'' ''A blue button''
       options_none =
     parse_reply example_stringify reply_in_prose options_none
       (RawData (anthropic_reply reply_in_prose))"
    unfolding texts .
  show ?thesis
    unfolding third fourth first second by simp
qed

text \<open>
  Claim C3 as stated fails on a reply whose prose has a brace after the object: the
  object by itself parses to verdict \<open>yes\<close> with confidence 0.9, but the text that is
  parsed runs on to the last \<open>}\<close> of the reply, is no JSON, and the result is the
  zero-confidence \<open>no\<close>.
\<close>

theorem C3_prose_with_braces_counterexample:
  "sublist reply_object reply_with_braces \<and>
   JSON_parse reply_object =
     Some (JObj [(''confidence'', JNum (9 / 10)), (''verdict'', JStr ''yes''),
                 (''reasoning'', JStr ''ok'')]) \<and>
   parse_reply example_stringify reply_with_braces options_none (RawText reply_with_braces) =
     Inr \<lparr>confidence = JNum 0,
          reasoning = JStr (''Error parsing response: '' @ reply_with_braces),
          verdict = JStr ''no'',
          failReason = None, suggestions = None, rawResponse = None\<rparr> \<and>
   openai_evaluateScreenshotInternal example_stringify no_config
       (world_answering (openai_reply reply_with_braces)) ''shot.png'' ''A blue button''
       options_none =
     Inr \<lparr>confidence = JNum 0,
          reasoning = JStr (''Error parsing response: '' @ reply_with_braces),
          verdict = JStr ''no'',
          failReason = None, suggestions = None, rawResponse = None\<rparr>"
proof (intro conjI)
  have shape: "reply_with_braces = ''Result: '' @ reply_object @ '' Notes: {none}''"
    by (simp add: reply_with_braces_def reply_object_def)
  show "sublist reply_object reply_with_braces"
    unfolding shape by (rule sublist_appendI)
  show "JSON_parse reply_object =
     Some (JObj [(''confidence'', JNum (9 / 10)), (''verdict'', JStr ''yes''),
                 (''reasoning'', JStr ''ok'')])"
    by code_simp
  have unparsed: "JSON_parse (parse_candidate reply_with_braces) = None"
    by code_simp
  have none: "raw_if options_none x = None" for x
    by (simp add: raw_if_def options_none_def)
  show direct: "parse_reply example_stringify reply_with_braces options_none
      (RawText reply_with_braces) =
     Inr \<lparr>confidence = JNum 0,
          reasoning = JStr (''Error parsing response: '' @ reply_with_braces),
          verdict = JStr ''no'',
          failReason = None, suggestions = None, rawResponse = None\<rparr>"
    using parse_reply_fallback [OF unparsed] by (simp add: none)
  have "openai_reply_body no_config (world_answering (openai_reply reply_with_braces))
      ''shot.png'' ''A blue button'' options_none = Some (openai_reply reply_with_braces)"
    by (simp add: openai_reply_body_def reply_body_def world_answering_def read_png_def
        http_200_def resolve_key_def str_truthy_def no_config_def)
  moreover have "openai_content example_stringify (openai_reply reply_with_braces)
      = reply_with_braces"
    by (simp add: openai_content_def openai_reply_def str_truthy_def reply_with_braces_def)
  ultimately show "openai_evaluateScreenshotInternal example_stringify no_config
       (world_answering (openai_reply reply_with_braces)) ''shot.png'' ''A blue button''
       options_none =
     Inr \<lparr>confidence = JNum 0,
          reasoning = JStr (''Error parsing response: '' @ reply_with_braces),
          verdict = JStr ''no'',
          failReason = None, suggestions = None, rawResponse = None\<rparr>"
    using direct by (simp add: internal_on_reply)
qed

text \<open>
  Claim C4. When the value parsed from the reply is an object without a \<open>confidence\<close>
  member (or an array), the result is returned, not thrown: verdict \<open>no\<close>, confidence 0,
  and a reasoning that starts with \<open>Invalid response format: \<close> followed by the
  serialised value. Both providers read a 2xx reply in this way.
\<close>

theorem C4_missing_confidence_field:
  "(JSON_parse (parse_candidate content) = Some (JObj members) \<and>
    ''confidence'' \<notin> fst ` set members \<longrightarrow>
      parse_reply stringify content options r =
        Inr \<lparr>confidence = JNum 0,
             reasoning = JStr (''Invalid response format: '' @ stringify (JObj members)),
             verdict = JStr ''no'',
             failReason = None, suggestions = None,
             rawResponse = raw_if options r\<rparr>) \<and>
   (JSON_parse (parse_candidate content) = Some (JArr elements) \<longrightarrow>
      parse_reply stringify content options r =
        Inr \<lparr>confidence = JNum 0,
             reasoning = JStr (''Invalid response format: '' @ stringify (JArr elements)),
             verdict = JStr ''no'',
             failReason = None, suggestions = None,
             rawResponse = raw_if options r\<rparr>) \<and>
   (openai_reply_body config w screenshotPath specification options = Some data \<longrightarrow>
      openai_evaluateScreenshotInternal stringify config w screenshotPath specification options
        = parse_reply stringify (openai_content stringify data) options
            (RawText (openai_content stringify data))) \<and>
   (anthropic_reply_body config w screenshotPath specification options = Some data \<longrightarrow>
      anthropic_evaluateScreenshotInternal stringify config w screenshotPath specification options
        = parse_reply stringify (anthropic_content data) options (RawData data))"
  by (auto simp: parse_reply_invalid internal_on_reply)

text \<open>The reply of the specification's example, from either provider.\<close>

theorem C4_missing_confidence_field_witness:
  \<open>openai_evaluateScreenshotInternal example_stringify no_config
       (world_answering (openai_reply reply_without_confidence)) ''shot.png'' ''A blue button''
       options_none =
     Inr \<lparr>confidence = JNum 0,
          reasoning = JStr ''Invalid response format: {"reasoning":"nothing"}'',
          verdict = JStr ''no'',
          failReason = None, suggestions = None, rawResponse = None\<rparr> \<and>
   anthropic_evaluateScreenshotInternal example_stringify no_config
       (world_answering (anthropic_reply reply_without_confidence)) ''shot.png'' ''A blue button''
       options_none =
     Inr \<lparr>confidence = JNum 0,
          reasoning = JStr ''Invalid response format: {"reasoning":"nothing"}'',
          verdict = JStr ''no'',
          failReason = None, suggestions = None, rawResponse = None\<rparr>\<close>
proof -
  note claim = C4_missing_confidence_field
  have parsed: "JSON_parse (parse_candidate reply_without_confidence)
      = Some (JObj [(''reasoning'', JStr ''nothing'')])"
    by code_simp
  have serialised: \<open>example_stringify (JObj [(''reasoning'', JStr ''nothing'')])
      = ''{"reasoning":"nothing"}''\<close>
    by (simp add: quote_def)
  have none: "raw_if options_none x = None" for x
    by (simp add: raw_if_def options_none_def)
  have "parse_reply example_stringify reply_without_confidence options_none x =
     Inr \<lparr>confidence = JNum 0,
          reasoning = JStr (''Invalid response format: '' @
            example_stringify (JObj [(''reasoning'', JStr ''nothing'')])),
          verdict = JStr ''no'',
          failReason = None, suggestions = None,
          rawResponse = raw_if options_none x\<rparr>" for x
    by (rule claim [THEN conjunct1, THEN mp]) (simp add: parsed)
  then have direct: \<open>parse_reply example_stringify reply_without_confidence options_none x =
     Inr \<lparr>confidence = JNum 0,
          reasoning = JStr ''Invalid response format: {"reasoning":"nothing"}'',
          verdict = JStr ''no'',
          failReason = None, suggestions = None, rawResponse = None\<rparr>\<close> for x
    unfolding serialised none by simp
  have bodies:
    "openai_reply_body no_config (world_answering (openai_reply reply_without_confidence))
      ''shot.png'' ''A blue button'' options_none = Some (openai_reply reply_without_confidence)"
    "anthropic_reply_body no_config (world_answering (anthropic_reply reply_without_confidence))
      ''shot.png'' ''A blue button'' options_none
      = Some (anthropic_reply reply_without_confidence)"
    by (simp_all add: openai_reply_body_def anthropic_reply_body_def reply_body_def
        world_answering_def read_png_def http_200_def resolve_key_def str_truthy_def
        no_config_def)
  have texts:
    "openai_content example_stringify (openai_reply reply_without_confidence)
      = reply_without_confidence"
    "anthropic_content (anthropic_reply reply_without_confidence) = reply_without_confidence"
    by (simp_all add: openai_content_def anthropic_content_def openai_reply_def
        anthropic_reply_def str_truthy_def reply_without_confidence_def)
  have "openai_evaluateScreenshotInternal example_stringify no_config
       (world_answering (openai_reply reply_without_confidence)) ''shot.png'' ''A blue button''
       options_none =
     parse_reply example_stringify
       (openai_content example_stringify (openai_reply reply_without_confidence)) options_none
       (RawText (openai_content example_stringify (openai_reply reply_without_confidence)))"
    by (rule claim [THEN conjunct2, THEN conjunct2, THEN conjunct1, THEN mp]) (rule bodies)
  moreover have "anthropic_evaluateScreenshotInternal example_stringify no_config
       (world_answering (anthropic_reply reply_without_confidence)) ''shot.png''
       ''A blue button'' options_none =
     parse_reply example_stringify
       (anthropic_content (anthropic_reply reply_without_confidence)) options_none
       (RawData (anthropic_reply reply_without_confidence))"
    by (rule claim [THEN conjunct2, THEN conjunct2, THEN conjunct2, THEN mp]) (rule bodies)
  ultimately show ?thesis
    unfolding texts direct by simp
qed

text \<open>
  Claim C8, as the code has it. A result that a provider returns has a \<open>rawResponse\<close>
  exactly when \<open>includeRawResponse\<close> is true in the options of the call. What it holds
  then is the reply text (OpenAI) or the reply body (Anthropic), whatever that is; the
  reply text is not empty whenever a JSON value was parsed from it.
\<close>

theorem C8_raw_response_on_request:
  "(parse_reply stringify content options r = Inr result \<longrightarrow>
      rawResponse result = (if includeRawResponse options = Some True then Some r else None)) \<and>
   (openai_evaluateScreenshotInternal stringify config w screenshotPath specification options
      = Inr result \<longrightarrow>
      openai_reply_body config w screenshotPath specification options \<noteq> None \<and>
      rawResponse result =
        (if includeRawResponse options = Some True
         then map_option (\<lambda>data. RawText (openai_content stringify data))
                (openai_reply_body config w screenshotPath specification options)
         else None)) \<and>
   (anthropic_evaluateScreenshotInternal stringify config w screenshotPath specification options
      = Inr result \<longrightarrow>
      anthropic_reply_body config w screenshotPath specification options \<noteq> None \<and>
      rawResponse result =
        (if includeRawResponse options = Some True
         then map_option RawData
                (anthropic_reply_body config w screenshotPath specification options)
         else None)) \<and>
   (JSON_parse (parse_candidate content) = Some j \<longrightarrow> content \<noteq> [])"
proof (intro conjI impI)
  assume "parse_reply stringify content options r = Inr result"
  then show "rawResponse result =
      (if includeRawResponse options = Some True then Some r else None)"
    by (simp add: parse_reply_raw raw_if_def)
next
  assume h: "openai_evaluateScreenshotInternal stringify config w screenshotPath specification
      options = Inr result"
  then obtain data where
    d: "openai_reply_body config w screenshotPath specification options = Some data"
    using internal_returns(1) by blast
  then show "openai_reply_body config w screenshotPath specification options \<noteq> None"
    by simp
  from h d have "parse_reply stringify (openai_content stringify data) options
      (RawText (openai_content stringify data)) = Inr result"
    by (simp add: internal_on_reply)
  then show "rawResponse result =
        (if includeRawResponse options = Some True
         then map_option (\<lambda>data. RawText (openai_content stringify data))
                (openai_reply_body config w screenshotPath specification options)
         else None)"
    using d by (simp add: parse_reply_raw raw_if_def)
next
  assume h: "anthropic_evaluateScreenshotInternal stringify config w screenshotPath specification
      options = Inr result"
  then obtain data where
    d: "anthropic_reply_body config w screenshotPath specification options = Some data"
    using internal_returns(2) by blast
  then show "anthropic_reply_body config w screenshotPath specification options \<noteq> None"
    by simp
  from h d have "parse_reply stringify (anthropic_content data) options (RawData data)
      = Inr result"
    by (simp add: internal_on_reply)
  then show "rawResponse result =
        (if includeRawResponse options = Some True
         then map_option RawData
                (anthropic_reply_body config w screenshotPath specification options)
         else None)"
    using d by (simp add: parse_reply_raw raw_if_def)
next
  assume "JSON_parse (parse_candidate content) = Some j"
  then show "content \<noteq> []"
    by (rule parsed_reply_not_empty)
qed

text \<open>
  The same reply with and without \<open>includeRawResponse\<close>: the raw response is the reply
  text in the first case and absent in the second.
\<close>

theorem C8_raw_response_on_request_witness:
  "rawResponse
     \<lparr>confidence = JNum (9 / 10), reasoning = JStr ''ok'', verdict = JStr ''yes'',
      failReason = None, suggestions = None, rawResponse = Some (RawText reply_in_prose)\<rparr>
     = Some (RawText reply_in_prose) \<and>
   openai_evaluateScreenshotInternal example_stringify no_config
       (world_answering (openai_reply reply_in_prose)) ''shot.png'' ''A blue button'' options_raw =
     Inr \<lparr>confidence = JNum (9 / 10), reasoning = JStr ''ok'', verdict = JStr ''yes'',
          failReason = None, suggestions = None,
          rawResponse = Some (RawText reply_in_prose)\<rparr> \<and>
   openai_evaluateScreenshotInternal example_stringify no_config
       (world_answering (openai_reply reply_in_prose)) ''shot.png'' ''A blue button'' options_none =
     Inr \<lparr>confidence = JNum (9 / 10), reasoning = JStr ''ok'', verdict = JStr ''yes'',
          failReason = None, suggestions = None, rawResponse = None\<rparr> \<and>
   reply_in_prose \<noteq> []"
proof -
  note claim = C8_raw_response_on_request
  have parsed: "JSON_parse (parse_candidate reply_in_prose) =
      Some (JObj [(''confidence'', JNum (9 / 10)), (''verdict'', JStr ''yes''),
                  (''reasoning'', JStr ''ok'')])"
    by code_simp
  have reply_text: "openai_content example_stringify (openai_reply reply_in_prose) = reply_in_prose"
    by (simp add: openai_content_def openai_reply_def str_truthy_def reply_in_prose_def)
  have body: "openai_reply_body no_config (world_answering (openai_reply reply_in_prose))
      ''shot.png'' ''A blue button'' options = Some (openai_reply reply_in_prose)" for options
    by (simp add: openai_reply_body_def reply_body_def world_answering_def read_png_def
        http_200_def resolve_key_def str_truthy_def no_config_def)
  have result: "openai_evaluateScreenshotInternal example_stringify no_config
       (world_answering (openai_reply reply_in_prose)) ''shot.png'' ''A blue button'' options =
     Inr \<lparr>confidence = JNum (9 / 10), reasoning = JStr ''ok'', verdict = JStr ''yes'',
          failReason = None, suggestions = None,
          rawResponse = raw_if options (RawText reply_in_prose)\<rparr>" for options
    using parse_reply_object [OF parsed, of example_stringify options "RawText reply_in_prose"]
    by (simp add: internal_on_reply(1) [OF body] reply_text or_default_def)
  have requested: "rawResponse
     \<lparr>confidence = JNum (9 / 10), reasoning = JStr ''ok'', verdict = JStr ''yes'',
      failReason = None, suggestions = None,
      rawResponse = raw_if options_raw (RawText reply_in_prose)\<rparr>
     = Some (RawText reply_in_prose)"
    using claim [THEN conjunct2, THEN conjunct1, THEN mp, OF result [of options_raw]]
    by (simp add: body reply_text options_raw_def options_none_def)
  have "reply_in_prose \<noteq> []"
    by (rule claim [THEN conjunct2, THEN conjunct2, THEN conjunct2, THEN mp]) (rule parsed)
  moreover have "raw_if options_raw x = Some x" "raw_if options_none x = None" for x
    by (simp_all add: raw_if_def options_raw_def options_none_def)
  ultimately show ?thesis
    using requested result [of options_raw] result [of options_none] by simp
qed

text \<open>
  Claim C8 as stated fails for a 200 reply without choices: the evaluation returns a
  result, \<open>includeRawResponse\<close> is true, and the \<open>rawResponse\<close> it carries is the empty
  string.
\<close>

theorem C8_empty_raw_response_counterexample:
  "includeRawResponse options_raw = Some True \<and>
   openai_evaluateScreenshotInternal example_stringify no_config
       (world_answering (OpenAIBody [])) ''shot.png'' ''A blue button'' options_raw =
     Inr \<lparr>confidence = JNum 0, reasoning = JStr ''Error parsing response: '',
          verdict = JStr ''no'', failReason = None, suggestions = None,
          rawResponse = Some (RawText [])\<rparr>"
proof
  show "includeRawResponse options_raw = Some True"
    by (simp add: options_raw_def)
  have body: "openai_reply_body no_config (world_answering (OpenAIBody []))
      ''shot.png'' ''A blue button'' options_raw = Some (OpenAIBody [])"
    by (simp add: openai_reply_body_def reply_body_def world_answering_def read_png_def
        http_200_def resolve_key_def str_truthy_def no_config_def)
  have reply_text: "openai_content example_stringify (OpenAIBody []) = []"
    by (simp add: openai_content_def)
  have unparsed: "JSON_parse (parse_candidate []) = None"
    by (simp add: parse_candidate_def jsonMatch_def JSON_parse_empty)
  have requested: "raw_if options_raw x = Some x" for x
    by (simp add: raw_if_def options_raw_def)
  show "openai_evaluateScreenshotInternal example_stringify no_config
       (world_answering (OpenAIBody [])) ''shot.png'' ''A blue button'' options_raw =
     Inr \<lparr>confidence = JNum 0, reasoning = JStr ''Error parsing response: '',
          verdict = JStr ''no'', failReason = None, suggestions = None,
          rawResponse = Some (RawText [])\<rparr>"
    using parse_reply_fallback [OF unparsed, of example_stringify options_raw "RawText []"]
    by (simp add: internal_on_reply(1) [OF body] reply_text requested)
qed

section \<open>The request body\<close>

lemma map_of_spread: "map_of (spread a b) = map_of a ++ map_of (rev b)"
proof (induction b arbitrary: a)
  case Nil
  then show ?case by (simp add: spread_def)
next
  case (Cons kv b)
  obtain k v where kv: "kv = (k, v)" by (cases kv)
  have "map_of (spread a (kv # b)) = map_of (spread (AList.update k v a) b)"
    by (simp add: spread_def kv)
  also have "\<dots> = (map_of a)(k \<mapsto> v) ++ map_of (rev b)"
    by (simp only: Cons.IH update_conv')
  also have "\<dots> = map_of a ++ map_of (rev (kv # b))"
    by (simp add: kv map_add_upd_left)
  finally show ?case .
qed

lemma spread_default:
  "k \<notin> fst ` set b \<Longrightarrow> map_of (spread a b) k = map_of a k"
proof -
  assume "k \<notin> fst ` set b"
  then have "map_of (rev b) k = None"
    by (simp add: map_of_eq_None_iff)
  then show ?thesis
    by (simp add: map_of_spread map_add_def)
qed

lemma spread_override:
  "map_of (rev b) k = Some v \<Longrightarrow> map_of (spread a b) k = Some v"
  by (simp add: map_of_spread map_add_def)

lemma body_ignores_temperature:
  "openai_body (config\<lparr>temperature := x\<rparr>) systemPrompt base64Image options
     = openai_body config systemPrompt base64Image options"
  "anthropic_body (config\<lparr>temperature := x\<rparr>) systemPrompt base64Image options
     = anthropic_body config systemPrompt base64Image options"
  by (simp_all add: openai_body_def anthropic_body_def model_or_def)

lemma request_ignores_temperature:
  "resolve_key (config\<lparr>temperature := x\<rparr>) w = resolve_key config w"
  "openai_request (config\<lparr>temperature := x\<rparr>) apikey systemPrompt base64Image options
     = openai_request config apikey systemPrompt base64Image options"
  "anthropic_request (config\<lparr>temperature := x\<rparr>) apikey systemPrompt base64Image options
     = anthropic_request config apikey systemPrompt base64Image options"
  by (simp_all add: resolve_key_def openai_request_def anthropic_request_def
      body_ignores_temperature)

lemma internal_ignores_temperature:
  "openai_evaluateScreenshotInternal stringify (config\<lparr>temperature := x\<rparr>)
     = openai_evaluateScreenshotInternal stringify config"
  "anthropic_evaluateScreenshotInternal stringify (config\<lparr>temperature := x\<rparr>)
     = anthropic_evaluateScreenshotInternal stringify config"
  by (intro ext,
      simp add: openai_evaluateScreenshotInternal_def request_ignores_temperature
        cong: sum.case_cong if_cong,
      intro ext,
      simp add: anthropic_evaluateScreenshotInternal_def request_ignores_temperature
        cong: sum.case_cong if_cong)

lemma mergeOptions_ignores_temperature:
  "mergeOptions (config\<lparr>temperature := x\<rparr>) options = mergeOptions config options"
  by (simp add: mergeOptions_def cong: option.case_cong)

text \<open>
  Claim C10. For both providers the request body has \<open>temperature\<close> 0.2 and
  \<open>max_tokens\<close> 1500 unless \<open>options.modelParameters\<close> has the key, and a key of
  \<open>modelParameters\<close> always takes the value given there (the parameters are spread last).
  \<open>validateConfig\<close> sets the configuration's \<open>temperature\<close> (0.3 when none is given),
  but neither the request body nor the outcome of an attempt or of a whole evaluation
  depends on that field.
\<close>

theorem C10_request_parameters:
  "(''temperature'' \<notin> fst ` set (params_or_empty options) \<longrightarrow>
      map_of (openai_body config systemPrompt base64Image options) ''temperature''
        = Some (JNum (2 / 10)) \<and>
      map_of (anthropic_body config systemPrompt base64Image options) ''temperature''
        = Some (JNum (2 / 10))) \<and>
   (''max_tokens'' \<notin> fst ` set (params_or_empty options) \<longrightarrow>
      map_of (openai_body config systemPrompt base64Image options) ''max_tokens''
        = Some (JNum 1500) \<and>
      map_of (anthropic_body config systemPrompt base64Image options) ''max_tokens''
        = Some (JNum 1500)) \<and>
   (map_of (rev (params_or_empty options)) k = Some v \<longrightarrow>
      map_of (openai_body config systemPrompt base64Image options) k = Some v \<and>
      map_of (anthropic_body config systemPrompt base64Image options) k = Some v) \<and>
   body (openai_request config apikey systemPrompt base64Image options)
     = JObj (openai_body config systemPrompt base64Image options) \<and>
   body (anthropic_request config apikey systemPrompt base64Image options)
     = JObj (anthropic_body config systemPrompt base64Image options) \<and>
   temperature (validateConfig env config) = Some (num_or (temperature config) (3 / 10)) \<and>
   (temperature config = None \<longrightarrow> temperature (validateConfig env config) = Some (3 / 10)) \<and>
   openai_body (config\<lparr>temperature := x\<rparr>) systemPrompt base64Image options
     = openai_body config systemPrompt base64Image options \<and>
   anthropic_body (config\<lparr>temperature := x\<rparr>) systemPrompt base64Image options
     = anthropic_body config systemPrompt base64Image options \<and>
   openai_evaluateScreenshotInternal stringify (config\<lparr>temperature := x\<rparr>) w
       screenshotPath specification options
     = openai_evaluateScreenshotInternal stringify config w screenshotPath specification options \<and>
   anthropic_evaluateScreenshotInternal stringify (config\<lparr>temperature := x\<rparr>) w
       screenshotPath specification options
     = anthropic_evaluateScreenshotInternal stringify config w screenshotPath specification
         options \<and>
   provider_evaluateScreenshot nd (OpenAIProvider (config\<lparr>temperature := x\<rparr>))
       screenshotPath specification options
     = provider_evaluateScreenshot nd (OpenAIProvider config) screenshotPath specification
         options \<and>
   provider_evaluateScreenshot nd (AnthropicProvider (config\<lparr>temperature := x\<rparr>))
       screenshotPath specification options
     = provider_evaluateScreenshot nd (AnthropicProvider config) screenshotPath specification
         options"
proof (intro conjI impI)
  assume "''temperature'' \<notin> fst ` set (params_or_empty options)"
  then show "map_of (openai_body config systemPrompt base64Image options) ''temperature''
        = Some (JNum (2 / 10))"
    and "map_of (anthropic_body config systemPrompt base64Image options) ''temperature''
        = Some (JNum (2 / 10))"
    by (simp_all add: openai_body_def anthropic_body_def spread_default)
next
  assume "''max_tokens'' \<notin> fst ` set (params_or_empty options)"
  then show "map_of (openai_body config systemPrompt base64Image options) ''max_tokens''
        = Some (JNum 1500)"
    and "map_of (anthropic_body config systemPrompt base64Image options) ''max_tokens''
        = Some (JNum 1500)"
    by (simp_all add: openai_body_def anthropic_body_def spread_default)
next
  assume "map_of (rev (params_or_empty options)) k = Some v"
  then show "map_of (openai_body config systemPrompt base64Image options) k = Some v"
    and "map_of (anthropic_body config systemPrompt base64Image options) k = Some v"
    unfolding openai_body_def anthropic_body_def by (rule spread_override)+
next
  show "temperature (validateConfig env config) = Some (num_or (temperature config) (3 / 10))"
    by (simp add: validateConfig_def)
  then show "temperature (validateConfig env config) = Some (3 / 10)"
    if "temperature config = None"
    using that by (simp add: num_or_def)
next
  show "provider_evaluateScreenshot nd (OpenAIProvider (config\<lparr>temperature := x\<rparr>))
       screenshotPath specification options
     = provider_evaluateScreenshot nd (OpenAIProvider config) screenshotPath specification
         options"
    by (simp add: evaluateScreenshot_def mergeOptions_ignores_temperature
        internal_ignores_temperature)
  show "provider_evaluateScreenshot nd (AnthropicProvider (config\<lparr>temperature := x\<rparr>))
       screenshotPath specification options
     = provider_evaluateScreenshot nd (AnthropicProvider config) screenshotPath specification
         options"
    by (simp add: evaluateScreenshot_def mergeOptions_ignores_temperature
        internal_ignores_temperature)
qed (simp_all add: openai_request_def anthropic_request_def body_ignores_temperature
      internal_ignores_temperature)

text \<open>
  Without model parameters the OpenAI body has temperature 0.2 and 1500 tokens; model
  parameters with temperature 0 override the first and leave the second.
\<close>

theorem C10_request_parameters_witness:
  "map_of (openai_body no_config ''prompt'' ''iVBORw0KGgo='' options_none) ''temperature''
     = Some (JNum (2 / 10)) \<and>
   map_of (anthropic_body no_config ''prompt'' ''iVBORw0KGgo='' options_none) ''max_tokens''
     = Some (JNum 1500) \<and>
   map_of (openai_body no_config ''prompt'' ''iVBORw0KGgo='' (options_temperature 0))
       ''temperature''
     = Some (JNum 0) \<and>
   map_of (openai_body no_config ''prompt'' ''iVBORw0KGgo='' (options_temperature 0))
       ''max_tokens''
     = Some (JNum 1500) \<and>
   temperature (validateConfig Map.empty no_config) = Some (3 / 10)"
proof -
  note claim = C10_request_parameters
  have no_params: "params_or_empty options_none = []"
    and params: "params_or_empty (options_temperature 0) = [(''temperature'', JNum 0)]"
    by (simp_all add: params_or_empty_def options_none_def options_temperature_def)
  have "map_of (openai_body no_config ''prompt'' ''iVBORw0KGgo='' options_none) ''temperature''
     = Some (JNum (2 / 10))"
    using claim [THEN conjunct1, THEN mp, THEN conjunct1,
        of options_none no_config "''prompt''" "''iVBORw0KGgo=''"]
    by (simp add: no_params)
  moreover have "map_of (anthropic_body no_config ''prompt'' ''iVBORw0KGgo='' options_none)
      ''max_tokens'' = Some (JNum 1500)"
    using claim [THEN conjunct2, THEN conjunct1, THEN mp, THEN conjunct2,
        of options_none no_config "''prompt''" "''iVBORw0KGgo=''"]
    by (simp add: no_params)
  moreover have "map_of (openai_body no_config ''prompt'' ''iVBORw0KGgo=''
      (options_temperature 0)) ''temperature'' = Some (JNum 0)"
    using claim [THEN conjunct2, THEN conjunct2, THEN conjunct1, THEN mp, THEN conjunct1,
        of "options_temperature 0" "''temperature''" "JNum 0" no_config "''prompt''"
          "''iVBORw0KGgo=''"]
    by (simp add: params)
  moreover have "map_of (openai_body no_config ''prompt'' ''iVBORw0KGgo=''
      (options_temperature 0)) ''max_tokens'' = Some (JNum 1500)"
    using claim [THEN conjunct2, THEN conjunct1, THEN mp, THEN conjunct1,
        of "options_temperature 0" no_config "''prompt''" "''iVBORw0KGgo=''"]
    by (simp add: params)
  moreover have "temperature (validateConfig Map.empty no_config) = Some (3 / 10)"
    using claim [THEN conjunct2, THEN conjunct2, THEN conjunct2, THEN conjunct2,
        THEN conjunct2, THEN conjunct2, THEN conjunct1, THEN mp, of no_config Map.empty]
    by (simp add: no_config_def)
  ultimately show ?thesis by simp
qed

section \<open>Registry, dispatch and the task\<close>

lemma registered_state:
  "registerProvider create service key p makeDefault = Inr (service', instance) \<Longrightarrow>
   providers service' = (providers service)(key \<mapsto> instance) \<and>
   defaultProvider service' =
     (if makeDefault \<or> defaultProvider service = None then Some key
      else defaultProvider service)"
  by (auto simp: registerProvider_def split: sum.splits prod.splits)

lemma getProvider_default:
  "defaultProvider service = Some key \<Longrightarrow> key \<noteq> [] \<Longrightarrow> providers service key = Some p \<Longrightarrow>
   getProvider service None = Inr p"
  by (simp add: getProvider_def str_truthy_def)

lemma getProvider_named:
  "key \<noteq> [] \<Longrightarrow> providers service key = Some p \<Longrightarrow> getProvider service (Some key) = Inr p"
  by (simp add: getProvider_def str_truthy_def)

text \<open>
  Claim C7, as the code has it, for provider names that are not the empty string. The
  first provider registered in a registry without default becomes the default: after
  registering \<open>A\<close> under \<open>a\<close> and then \<open>B\<close> under another name \<open>b\<close>, both without
  \<open>makeDefault\<close>, resolving without a name gives \<open>A\<close>, and an evaluation that names
  \<open>b\<close> is the evaluation by \<open>B\<close>. A later registration with \<open>makeDefault\<close> makes its
  provider the default. Resolving a name that is not registered, or no name when there is
  no default, fails with the not-found errors.
\<close>

theorem C7_registry_default:
  "(defaultProvider service = None \<and> a \<noteq> [] \<and> b \<noteq> [] \<and> a \<noteq> b \<and>
    registerProvider create service a pa False = Inr (service1, A) \<and>
    registerProvider create service1 b pb False = Inr (service2, B) \<longrightarrow>
      defaultProvider service1 = Some a \<and>
      defaultProvider service2 = Some a \<and>
      getProvider service2 None = Inr A \<and>
      getProvider service2 (Some b) = Inr B \<and>
      service_evaluateScreenshot evaluate service2 screenshotPath specification options (Some b)
        = evaluate B screenshotPath specification options) \<and>
   (c \<noteq> [] \<and> registerProvider create service c pc True = Inr (service3, C) \<longrightarrow>
      defaultProvider service3 = Some c \<and> getProvider service3 None = Inr C) \<and>
   (n \<noteq> [] \<and> providers service n = None \<longrightarrow>
      getProvider service (Some n) = Inl (not_registered n)) \<and>
   (defaultProvider service = None \<longrightarrow>
      getProvider service None =
        Inl (Error ''No provider specified and no default provider is set''))"
proof (intro conjI impI)
  assume h: "defaultProvider service = None \<and> a \<noteq> [] \<and> b \<noteq> [] \<and> a \<noteq> b \<and>
    registerProvider create service a pa False = Inr (service1, A) \<and>
    registerProvider create service1 b pb False = Inr (service2, B)"
  then have s1: "providers service1 = (providers service)(a \<mapsto> A)"
      "defaultProvider service1 = Some a"
    using registered_state [of create service a pa False service1 A] by simp_all
  with h have s2: "providers service2 = (providers service1)(b \<mapsto> B)"
      "defaultProvider service2 = Some a"
    using registered_state [of create service1 b pb False service2 B] by simp_all
  show "defaultProvider service1 = Some a" by (rule s1)
  show "defaultProvider service2 = Some a" by (rule s2)
  show "getProvider service2 None = Inr A"
    using h s1 s2 by (intro getProvider_default [of _ a]) simp_all
  show named: "getProvider service2 (Some b) = Inr B"
    using h s2 by (intro getProvider_named) simp_all
  show "service_evaluateScreenshot evaluate service2 screenshotPath specification options (Some b)
        = evaluate B screenshotPath specification options"
    by (simp add: service_evaluateScreenshot_def named)
next
  assume h: "c \<noteq> [] \<and> registerProvider create service c pc True = Inr (service3, C)"
  then have s3: "providers service3 = (providers service)(c \<mapsto> C)"
      "defaultProvider service3 = Some c"
    using registered_state [of create service c pc True service3 C] by simp_all
  show "defaultProvider service3 = Some c" by (rule s3)
  show "getProvider service3 None = Inr C"
    using h s3 by (intro getProvider_default [of _ c]) simp_all
next
  assume "n \<noteq> [] \<and> providers service n = None"
  then show "getProvider service (Some n) = Inl (not_registered n)"
    by (simp add: getProvider_def str_truthy_def)
next
  assume "defaultProvider service = None"
  then show "getProvider service None =
      Inl (Error ''No provider specified and no default provider is set'')"
    by (simp add: getProvider_def str_truthy_def)
qed

text \<open>
  In a new registry: \<open>A\<close> then \<open>B\<close> without \<open>makeDefault\<close>, then \<open>C\<close> with it, the name
  \<open>D\<close> that nobody registered, and no name at all before any registration.
\<close>

theorem C7_registry_default_witness:
  "getProvider
     \<lparr>providers = [''A'' \<mapsto> provider_A, ''B'' \<mapsto> provider_B], defaultProvider = Some ''A''\<rparr>
     None = Inr provider_A \<and>
   getProvider
     \<lparr>providers = [''A'' \<mapsto> provider_A, ''B'' \<mapsto> provider_B], defaultProvider = Some ''A''\<rparr>
     (Some ''B'') = Inr provider_B \<and>
   getProvider
     \<lparr>providers = [''A'' \<mapsto> provider_A, ''C'' \<mapsto> provider_B], defaultProvider = Some ''C''\<rparr>
     None = Inr provider_B \<and>
   getProvider service_with_A (Some ''D'') = Inl (not_registered ''D'') \<and>
   getProvider (new_LLMService :: provider LLMService) None =
     Inl (Error ''No provider specified and no default provider is set'')"
proof -
  note claim = C7_registry_default
  let ?s1 = "\<lparr>providers = [''A'' \<mapsto> provider_A], defaultProvider = Some ''A''\<rparr>"
  let ?s2 = "\<lparr>providers = [''A'' \<mapsto> provider_A, ''B'' \<mapsto> provider_B],
              defaultProvider = Some ''A''\<rparr>"
  let ?s3 = "\<lparr>providers = [''A'' \<mapsto> provider_A, ''C'' \<mapsto> provider_B],
              defaultProvider = Some ''C''\<rparr>"
  have r1: "registerProvider example_factory new_LLMService ''A'' (Inl provider_A) False
      = Inr (?s1, provider_A)"
    by (simp add: registerProvider_def new_LLMService_def)
  have r2: "registerProvider example_factory ?s1 ''B'' (Inl provider_B) False
      = Inr (?s2, provider_B)"
    by (simp add: registerProvider_def)
  have r3: "registerProvider example_factory ?s1 ''C'' (Inl provider_B) True
      = Inr (?s3, provider_B)"
    by (simp add: registerProvider_def)
  have "getProvider ?s2 None = Inr provider_A \<and> getProvider ?s2 (Some ''B'') = Inr provider_B"
    using claim [THEN conjunct1, THEN mp,
        of new_LLMService "''A''" "''B''" example_factory "Inl provider_A" ?s1 provider_A
          "Inl provider_B" ?s2 provider_B "provider_evaluateScreenshot node_failing"
          "''shot.png''" "''A blue button''" options_none]
      r1 r2
    by (simp add: new_LLMService_def)
  moreover have "getProvider ?s3 None = Inr provider_B"
    using claim [THEN conjunct2, THEN conjunct1, THEN mp,
        of "''C''" example_factory ?s1 "Inl provider_B" ?s3 provider_B]
      r3
    by simp
  moreover have "getProvider service_with_A (Some ''D'') = Inl (not_registered ''D'')"
    using claim [THEN conjunct2, THEN conjunct2, THEN conjunct1, THEN mp,
        of "''D''" service_with_A]
    by (simp add: service_with_A_def)
  moreover have "getProvider (new_LLMService :: provider LLMService) None =
      Inl (Error ''No provider specified and no default provider is set'')"
    using claim [THEN conjunct2, THEN conjunct2, THEN conjunct2, THEN mp,
        of "new_LLMService :: provider LLMService"]
    by (simp add: new_LLMService_def)
  ultimately show ?thesis by simp
qed

text \<open>
  Claim C7 as stated fails for the empty name: the first registration makes it the
  default, but resolving without a name then fails, because the empty string counts as no
  name.
\<close>

theorem C7_empty_name_counterexample:
  "registerProvider example_factory new_LLMService [] (Inl provider_A) False
     = Inr (service_unnamed, provider_A) \<and>
   defaultProvider service_unnamed = Some [] \<and>
   getProvider service_unnamed None =
     Inl (Error ''No provider specified and no default provider is set'')"
  by (simp add: registerProvider_def new_LLMService_def service_unnamed_def getProvider_def
      str_truthy_def)

lemma task_never_throws:
  "fst (evaluateScreenshotWithLLM fs_exists evaluate service screenshotPath specification
          options providerName) \<noteq> Inl e"
  by (auto simp: evaluateScreenshotWithLLM_def split: prod.splits sum.splits)

text \<open>
  Claim C6, as the code has it. An error that is still thrown at the last attempt leaves
  the retry loop unchanged, and \<open>LLMService.evaluateScreenshot\<close> passes on unchanged both
  the error of the provider it dispatches to and the error of resolving the provider. The
  task \<open>evaluateScreenshotWithLLM\<close> does not: it never throws. It turns an error of the
  service into a result with verdict \<open>no\<close>, confidence 0, the error's message as reasoning
  and the fail reason \<open>Error communicating with LLM service\<close>, and a missing screenshot
  into such a result with the fail reason \<open>Screenshot file not found\<close>, without calling
  the service.
\<close>

theorem C6_errors_become_results_in_the_task:
  "(1 \<le> m \<and> maxRetries (mergeOptions config options) = Some (int m) \<and>
    (inBrowser \<or> fileExists screenshotPath) \<and>
    (\<forall>a. 1 \<le> a \<and> a \<le> m \<longrightarrow>
       internal a screenshotPath specification (mergeOptions config options) = Inl (err a))
    \<longrightarrow>
      fst (evaluateScreenshot inBrowser fileExists label config internal
             screenshotPath specification options) = Inl (err m)) \<and>
   (getProvider service providerName = Inr p \<and>
    evaluate p screenshotPath specification options = (Inl e, events) \<longrightarrow>
      service_evaluateScreenshot evaluate service screenshotPath specification options
        providerName = (Inl e, events)) \<and>
   (getProvider service providerName = Inl e \<longrightarrow>
      service_evaluateScreenshot evaluate service screenshotPath specification options
        providerName = (Inl e, [])) \<and>
   (fs_exists screenshotPath \<and>
    service_evaluateScreenshot evaluate service screenshotPath specification options
      providerName = (Inl e, events) \<longrightarrow>
      evaluateScreenshotWithLLM fs_exists evaluate service screenshotPath specification
        options providerName =
        (Inr \<lparr>confidence = JNum 0,
              reasoning = JStr (message e),
              verdict = JStr ''no'',
              failReason = Some (JStr ''Error communicating with LLM service''),
              suggestions = None, rawResponse = None\<rparr>, events)) \<and>
   (\<not> fs_exists screenshotPath \<longrightarrow>
      evaluateScreenshotWithLLM fs_exists evaluate service screenshotPath specification
        options providerName =
        (Inr \<lparr>confidence = JNum 0,
              reasoning = JStr (''Screenshot does not exist at path: '' @ screenshotPath),
              verdict = JStr ''no'',
              failReason = Some (JStr ''Screenshot file not found''),
              suggestions = None, rawResponse = None\<rparr>, [])) \<and>
   fst (evaluateScreenshotWithLLM fs_exists evaluate service screenshotPath specification
          options providerName) \<noteq> Inl e"
proof (intro conjI impI)
  assume h: "1 \<le> m \<and> maxRetries (mergeOptions config options) = Some (int m) \<and>
    (inBrowser \<or> fileExists screenshotPath) \<and>
    (\<forall>a. 1 \<le> a \<and> a \<le> m \<longrightarrow>
       internal a screenshotPath specification (mergeOptions config options) = Inl (err a))"
  let ?f = "\<lambda>a. internal a screenshotPath specification (mergeOptions config options)"
  have "retry_loop label ?f (int m) 1 None = (Inl (err m), failed_attempts 1 m @ [Invoke m])"
    using h by (intro retry_loop_exhausts) auto
  moreover have "num_or (maxRetries (mergeOptions config options)) 1 = int m"
    using h by (intro limit_of_maxRetries) simp_all
  ultimately show "fst (evaluateScreenshot inBrowser fileExists label config internal
             screenshotPath specification options) = Inl (err m)"
    using h by (auto simp: evaluateScreenshot_def Let_def)
next
  show "fst (evaluateScreenshotWithLLM fs_exists evaluate service screenshotPath specification
          options providerName) \<noteq> Inl e"
    by (rule task_never_throws)
qed (simp_all add: service_evaluateScreenshot_def evaluateScreenshotWithLLM_def)

text \<open>
  With every request answered by status 500 and \<open>maxRetries\<close> 2, the provider throws the
  error of the second attempt, the service passes it on, and the task returns a result
  that carries its message.
\<close>

theorem C6_errors_become_results_in_the_task_witness:
  "service_evaluateScreenshot (provider_evaluateScreenshot node_failing) service_with_A
     ''shot.png'' ''A blue button'' (options_none\<lparr>maxRetries := Some 2\<rparr>) (Some ''A'')
     = (Inl (Error ''API request failed with status 500''), [Invoke 1, Wait 1000, Invoke 2]) \<and>
   evaluateScreenshotWithLLM (existsSync node_failing) (provider_evaluateScreenshot node_failing)
     service_with_A ''shot.png'' ''A blue button'' (options_none\<lparr>maxRetries := Some 2\<rparr>)
     (Some ''A'')
     = (Inr \<lparr>confidence = JNum 0,
             reasoning = JStr ''API request failed with status 500'',
             verdict = JStr ''no'',
             failReason = Some (JStr ''Error communicating with LLM service''),
             suggestions = None, rawResponse = None\<rparr>,
        [Invoke 1, Wait 1000, Invoke 2])"
proof -
  note claim = C6_errors_become_results_in_the_task
  let ?options = "options_none\<lparr>maxRetries := Some 2\<rparr>"
  have resolved: "getProvider service_with_A (Some ''A'') = Inr provider_A"
    by (simp add: getProvider_def service_with_A_def str_truthy_def)
  have found: "existsSync node_failing ''shot.png''"
    by (simp add: node_failing_def always_def)
  have thrown: "provider_evaluateScreenshot node_failing provider_A ''shot.png''
      ''A blue button'' ?options
      = (Inl (Error ''API request failed with status 500''), [Invoke 1, Wait 1000, Invoke 2])"
    by code_simp
  have dispatched: "service_evaluateScreenshot (provider_evaluateScreenshot node_failing)
      service_with_A ''shot.png'' ''A blue button'' ?options (Some ''A'')
      = (Inl (Error ''API request failed with status 500''), [Invoke 1, Wait 1000, Invoke 2])"
    by (rule claim [THEN conjunct2, THEN conjunct1, THEN mp])
      (rule conjI [OF resolved thrown])
  have "evaluateScreenshotWithLLM (existsSync node_failing)
      (provider_evaluateScreenshot node_failing) service_with_A ''shot.png'' ''A blue button''
      ?options (Some ''A'')
     = (Inr \<lparr>confidence = JNum 0,
             reasoning = JStr (message (Error ''API request failed with status 500'')),
             verdict = JStr ''no'',
             failReason = Some (JStr ''Error communicating with LLM service''),
             suggestions = None, rawResponse = None\<rparr>,
        [Invoke 1, Wait 1000, Invoke 2])"
    by (rule claim [THEN conjunct2, THEN conjunct2, THEN conjunct2, THEN conjunct1, THEN mp])
      (rule conjI [OF found dispatched])
  with dispatched show ?thesis by simp
qed

text \<open>
  Claim C6 as stated fails when every request is answered by status 500: the provider,
  with its default of three attempts, throws the error of the last one, and the task
  returns a result instead of throwing that error.
\<close>

theorem C6_error_swallowed_counterexample:
  "provider_evaluateScreenshot node_failing provider_A ''shot.png'' ''A blue button''
     options_none
     = (Inl (Error ''API request failed with status 500''),
        [Invoke 1, Wait 1000, Invoke 2, Wait 2000, Invoke 3]) \<and>
   evaluateScreenshotWithLLM (existsSync node_failing) (provider_evaluateScreenshot node_failing)
     service_with_A ''shot.png'' ''A blue button'' options_none None
     = (Inr \<lparr>confidence = JNum 0,
             reasoning = JStr ''API request failed with status 500'',
             verdict = JStr ''no'',
             failReason = Some (JStr ''Error communicating with LLM service''),
             suggestions = None, rawResponse = None\<rparr>,
        [Invoke 1, Wait 1000, Invoke 2, Wait 2000, Invoke 3])"
proof
  show thrown: "provider_evaluateScreenshot node_failing provider_A ''shot.png''
      ''A blue button'' options_none
     = (Inl (Error ''API request failed with status 500''),
        [Invoke 1, Wait 1000, Invoke 2, Wait 2000, Invoke 3])"
    by code_simp
  have "getProvider service_with_A None = Inr provider_A"
    by (simp add: getProvider_def service_with_A_def str_truthy_def)
  moreover have "existsSync node_failing ''shot.png''"
    by (simp add: node_failing_def always_def)
  ultimately show "evaluateScreenshotWithLLM (existsSync node_failing)
      (provider_evaluateScreenshot node_failing) service_with_A ''shot.png'' ''A blue button''
      options_none None
     = (Inr \<lparr>confidence = JNum 0,
             reasoning = JStr ''API request failed with status 500'',
             verdict = JStr ''no'',
             failReason = Some (JStr ''Error communicating with LLM service''),
             suggestions = None, rawResponse = None\<rparr>,
        [Invoke 1, Wait 1000, Invoke 2, Wait 2000, Invoke 3])"
    by (simp add: evaluateScreenshotWithLLM_def service_evaluateScreenshot_def thrown)
qed

section \<open>The global configuration\<close>

lemma configureVibes_leaves_evaluation:
  "evaluation (configureVibes runtimeConfig options) = evaluation runtimeConfig"
  "config_defaultProvider (configureVibes runtimeConfig options)
     = config_defaultProvider runtimeConfig"
  by (simp_all add: configureVibes_def)

lemma mergedOptions_after_configureVibes:
  "mergedOptions (configureVibes runtimeConfig global) options
     = mergedOptions runtimeConfig options"
  by (simp add: mergedOptions_def configureVibes_leaves_evaluation)

text \<open>
  Claim C9 at a failing input. After \<open>cy.configureVibes({confidenceThreshold: 0.5})\<close> on
  the default configuration, the value 0.5 sits on the configuration object itself, while
  the threshold that a \<open>vibeCheck\<close> without options merges is still the 0.8 of
  \<open>evaluation\<close>: a \<open>yes\<close> with confidence 0.6 is rejected, with a message that names
  the threshold 0.8. The gate at 0.5 would have passed it.
\<close>

theorem C9_configureVibes_has_no_effect:
  "confidenceThreshold (own_properties configured_half) = Some (1 / 2) \<and>
   confidenceThreshold (mergedOptions configured_half no_options) = Some (8 / 10) \<and>
   vibeCheck example_format configured_half (bridge_delivering (result_yes (6 / 10)))
     ''shot.png'' [''#submit''] ''A blue button'' no_options
     = Inl (Error (failureMessage example_format ''A blue button'' (result_yes (6 / 10))
                     (Some (8 / 10)) ''shot.png'')) \<and>
   sublist ''Confidence: 0.60 (threshold: 0.8)''
     (failureMessage example_format ''A blue button'' (result_yes (6 / 10))
        (Some (8 / 10)) ''shot.png'') \<and>
   decision_gate example_format [''#submit''] ''A blue button'' (Some (1 / 2)) ''shot.png''
     (result_yes (6 / 10)) = Inr [''#submit'']"
proof (intro conjI)
  show "confidenceThreshold (own_properties configured_half) = Some (1 / 2)"
    by (simp add: configured_half_def configureVibes_def pick_def)
  have "mergedOptions configured_half no_options
      = mergedOptions (defaultConfig Map.empty) no_options"
    unfolding configured_half_def by (rule mergedOptions_after_configureVibes)
  then show merged:
    "confidenceThreshold (mergedOptions configured_half no_options) = Some (8 / 10)"
    by (simp add: mergedOptions_def defaultConfig_def no_options_def pick_def)
  show "vibeCheck example_format configured_half (bridge_delivering (result_yes (6 / 10)))
     ''shot.png'' [''#submit''] ''A blue button'' no_options
     = Inl (Error (failureMessage example_format ''A blue button'' (result_yes (6 / 10))
                     (Some (8 / 10)) ''shot.png''))"
    by (simp add: vibeCheck_def Let_def merged bridge_delivering_def decision_gate_def
        passes_def result_yes_def)
  have printed: "toFixed2 example_format (confidence (result_yes (6 / 10))) = ''0.60''"
    "numToString example_format (8 / 10) = ''0.8''"
    by code_simp+
  have line: "''Confidence: '' @ toFixed2 example_format (confidence (result_yes (6 / 10))) @
      '' (threshold: '' @ numToString example_format (8 / 10) @ '')''
      = ''Confidence: 0.60 (threshold: 0.8)''"
    unfolding printed by simp
  have "''Confidence: '' @ toFixed2 example_format (confidence (result_yes (6 / 10))) @
      '' (threshold: '' @ numToString example_format (8 / 10) @ '')''
      \<in> set (failure_lines example_format ''A blue button'' (result_yes (6 / 10))
               (Some (8 / 10)) ''shot.png'')"
    by (simp add: failure_lines_def)
  then have "''Confidence: 0.60 (threshold: 0.8)''
      \<in> set (failure_lines example_format ''A blue button'' (result_yes (6 / 10))
               (Some (8 / 10)) ''shot.png'')"
    unfolding line .
  then show "sublist ''Confidence: 0.60 (threshold: 0.8)''
     (failureMessage example_format ''A blue button'' (result_yes (6 / 10))
        (Some (8 / 10)) ''shot.png'')"
    by (simp add: failureMessage_def sublist_join)
  show "decision_gate example_format [''#submit''] ''A blue button'' (Some (1 / 2)) ''shot.png''
     (result_yes (6 / 10)) = Inr [''#submit'']"
    by (simp add: decision_gate_def passes_def result_yes_def)
qed

end
